theory Spec2Isabelle
  imports Main
begin

section \<open>Python values: exceptions, text\<close>

text \<open>
  An exception is a value; each constructor carries the text that Python's \<open>str(e)\<close>
  gives. A function that may raise returns \<open>py_exn + 'a\<close>, with \<open>Inl\<close> the raise.
\<close>

datatype py_exn =
    Exception string
  | KeyError string
  | IndexError string
  | TypeError string
  | AttributeError string
  | JSONDecodeError string
  | RequestException string

fun str_exn :: "py_exn \<Rightarrow> string" where
  "str_exn (Exception m) = m"
| "str_exn (KeyError m) = m"
| "str_exn (IndexError m) = m"
| "str_exn (TypeError m) = m"
| "str_exn (AttributeError m) = m"
| "str_exn (JSONDecodeError m) = m"
| "str_exn (RequestException m) = m"

text \<open>\<open>repr\<close> of a key that is a plain identifier: the key between single quotes.\<close>

definition repr_key :: "string \<Rightarrow> string" where
  "repr_key k = [CHR 0x27] @ k @ [CHR 0x27]"

text \<open>\<open>d[k]\<close> on a dictionary whose key \<open>k\<close> may be missing.\<close>

definition subscript :: "string \<Rightarrow> 'a option \<Rightarrow> py_exn + 'a" where
  "subscript k v = (case v of None \<Rightarrow> Inl (KeyError (repr_key k)) | Some x \<Rightarrow> Inr x)"

text \<open>\<open>d.get(k, default)\<close>.\<close>

definition get_default :: "'a option \<Rightarrow> 'a \<Rightarrow> 'a" where
  "get_default v d = (case v of None \<Rightarrow> d | Some x \<Rightarrow> x)"

text \<open>Decimal text of an integer, as an f-string prints it.\<close>

fun digits :: "nat \<Rightarrow> string" where
  "digits n = (if n < 10 then [char_of (48 + n)] else digits (n div 10) @ [char_of (48 + n mod 10)])"

declare digits.simps [simp del]

definition str_int :: "int \<Rightarrow> string" where
  "str_int i = (if i < 0 then CHR ''-'' # digits (nat (- i)) else digits (nat i))"

text \<open>
  Texts are UTF-8 byte strings. \<open>len\<close> counts code points: every byte that is not a
  continuation byte (\<open>10xxxxxx\<close>) starts one.
\<close>

definition py_len :: "string \<Rightarrow> nat" where
  "py_len s = length (filter (\<lambda>c. \<not> (128 \<le> (of_char c :: nat) \<and> (of_char c :: nat) < 192)) s)"

text \<open>\<open>str.lower\<close> on the ASCII letters; the other bytes stay.\<close>

definition lower_char :: "char \<Rightarrow> char" where
  "lower_char c = (if 65 \<le> (of_char c :: nat) \<and> (of_char c :: nat) \<le> 90
     then char_of ((of_char c :: nat) + 32) else c)"

definition lower :: "string \<Rightarrow> string" where
  "lower s = map lower_char s"

text \<open>\<open>needle in haystack\<close> on strings.\<close>

fun starts_with :: "string \<Rightarrow> string \<Rightarrow> bool" where
  "starts_with [] ys = True"
| "starts_with (x # xs) [] = False"
| "starts_with (x # xs) (y # ys) = (x = y \<and> starts_with xs ys)"

fun contains :: "string \<Rightarrow> string \<Rightarrow> bool" where
  "contains needle [] = (needle = [])"
| "contains needle (y # ys) = (starts_with needle (y # ys) \<or> contains needle ys)"

text \<open>The keycap emoji of a digit: the digit, U+FE0F, U+20E3.\<close>

definition keycap :: "char \<Rightarrow> string" where
  "keycap c = [c, CHR 0xEF, CHR 0xB8, CHR 0x8F, CHR 0xE2, CHR 0x83, CHR 0xA3]"

definition emoji_wave :: string where
  "emoji_wave = [CHR 0xF0, CHR 0x9F, CHR 0x91, CHR 0x8B]"

definition emoji_memo :: string where
  "emoji_memo = [CHR 0xF0, CHR 0x9F, CHR 0x93, CHR 0x9D]"

definition emoji_palette :: string where
  "emoji_palette = [CHR 0xF0, CHR 0x9F, CHR 0x8E, CHR 0xA8]"

section \<open>The data model\<close>

datatype States =
    INITIAL_PROMPT
  | CHOOSING_PROMPT
  | REFERENCE_CHOICE
  | AWAITING_REFERENCE
  | GENERATING_IMAGE
  | ITERATING_IMAGE

text \<open>The value stored under \<open>'reference_image'\<close>.\<close>

record reference_image =
  file_id :: string
  file_path :: string

text \<open>
  One entry of \<open>self.user_data\<close>: a dictionary whose keys are each present or not.
\<close>

record session =
  original_prompt :: "string option"
  enhanced_prompt :: "string option"
  final_prompt :: "string option"
  reference_image :: "reference_image option"
  generated_images :: "string list option"

definition empty_session :: session where
  "empty_session = \<lparr>original_prompt = None, enhanced_prompt = None, final_prompt = None,
     reference_image = None, generated_images = None\<rparr>"

section \<open>The remote service\<close>

text \<open>
  Response bodies, at the shape the code reads them: every key may be missing. The
  field \<open>up_fields\<close> holds what \<open>json.loads\<close> makes of the text under \<open>'fields'\<close>.
  The key \<open>generations_by_pk\<close>, which the code reads with \<open>.get(key, {})\<close> and then calls
  \<open>.get\<close> on, is absent, \<open>null\<close> or an object: the default stands in for an absent key
  only, and \<open>None\<close> has no \<open>.get\<close>.
\<close>

datatype 'a entry = Absent | Null | Present 'a

record image =
  img_url :: "string option"

record generation =
  job_status :: "string option"
  job_images :: "image list option"

record upload_init =
  up_fields :: "(py_exn + (string \<times> string) list) option"
  up_url :: "string option"
  up_id :: "string option"

record body =
  body_error :: "string option"
  promptGeneration :: "string option option"
  uploadInitImage :: "upload_init option"
  sdGenerationJob :: "string option option"
  generations_by_pk :: "generation entry"

definition empty_body :: body where
  "empty_body = \<lparr>body_error = None, promptGeneration = None, uploadInitImage = None,
     sdGenerationJob = None, generations_by_pk = Absent\<rparr>"

definition empty_generation :: generation where
  "empty_generation = \<lparr>job_status = None, job_images = None\<rparr>"

text \<open>
  An HTTP response: \<open>json\<close> is what \<open>response.json()\<close> returns or raises, \<open>content\<close>
  the raw bytes.
\<close>

record response =
  status_code :: int
  json :: "py_exn + body"
  content :: string

record controlnet =
  initImageId :: string
  initImageType :: string
  preprocessorId :: int
  strengthType :: string

text \<open>The keys that only the reference path sends; \<open>init_strength\<close> as its literal.\<close>

record conditioning =
  init_image_id :: string
  init_strength :: string
  controlnets :: "controlnet list"
  presetStyle :: string

record payload =
  height :: int
  width :: int
  modelId :: string
  prompt :: string
  photoReal :: bool
  guidance_scale :: int
  num_images :: int
  reference :: "conditioning option"

datatype request =
    POST_prompt_improve string
  | POST_init_image string
  | GET_url string
  | POST_upload string "(string \<times> string) list" string
  | POST_generations payload
  | GET_generations string

text \<open>Everything the bot does that can be seen from outside, oldest first.\<close>

datatype event =
    ReplyText string
  | ReplyPhoto string string
  | Http request
  | AsyncSleep nat
  | TimeSleep nat

text \<open>
  \<open>user_data\<close> is \<open>self.user_data\<close>, \<open>original_text\<close> the key of that name in the
  transport's own per-user \<open>context.user_data\<close>, \<open>conversations\<close> the states the
  conversation handler keeps, one for each pair of a chat and a user, \<open>requests_made\<close> the
  number of HTTP requests sent so far.
\<close>

record world =
  user_data :: "int \<rightharpoonup> session"
  original_text :: "int \<rightharpoonup> string"
  conversations :: "int \<times> int \<rightharpoonup> States"
  requests_made :: nat
  trace :: "event list"

text \<open>
  The mocked collaborators: \<open>net n\<close> is the outcome of the \<open>n\<close>-th HTTP request,
  \<open>get_file\<close> the chat transport's file lookup. \<open>frozen_messages\<close> says whether the
  transport's message objects refuse attribute assignment (its releases from 20.0 on
  do, the earlier ones do not).
\<close>

record env =
  net :: "nat \<Rightarrow> py_exn + response"
  get_file :: "string \<Rightarrow> py_exn + string"
  frozen_messages :: bool

text \<open>
  The chat transport is a collaborator, not part of the program: a reply is recorded in
  the trace and does not fail. So are the two kinds of sleep, \<open>asyncio.sleep\<close> and
  \<open>time.sleep\<close>. An HTTP request is recorded and counted, and the environment answers it
  with a response or an exception.
\<close>

definition reply_text :: "string \<Rightarrow> world \<Rightarrow> world" where
  "reply_text t w = w\<lparr>trace := trace w @ [ReplyText t]\<rparr>"

definition reply_photo :: "string \<Rightarrow> string \<Rightarrow> world \<Rightarrow> world" where
  "reply_photo p caption w = w\<lparr>trace := trace w @ [ReplyPhoto p caption]\<rparr>"

definition async_sleep :: "nat \<Rightarrow> world \<Rightarrow> world" where
  "async_sleep s w = w\<lparr>trace := trace w @ [AsyncSleep s]\<rparr>"

definition time_sleep :: "nat \<Rightarrow> world \<Rightarrow> world" where
  "time_sleep s w = w\<lparr>trace := trace w @ [TimeSleep s]\<rparr>"

definition http :: "env \<Rightarrow> request \<Rightarrow> world \<Rightarrow> (py_exn + response) \<times> world" where
  "http e r w =
     (net e (requests_made w),
      w\<lparr>requests_made := Suc (requests_made w), trace := trace w @ [Http r]\<rparr>)"

section \<open>The generation client\<close>

text \<open>The dictionary a generation call returns.\<close>

datatype gen_result = Success string | Error string

definition max_attempts :: nat where
  "max_attempts = 30"

definition poll_interval :: nat where
  "poll_interval = 2"

definition generating_text :: string where
  "generating_text = emoji_palette @ '' Generating your image...\<newline>''
     @ ''This might take a minute or two. Please wait...''"

definition timed_out_text :: string where
  "timed_out_text = ''Generation timed out or failed to complete''"

definition scratch_payload :: "string \<Rightarrow> payload" where
  "scratch_payload p = \<lparr>height = 512, width = 1040,
     modelId = ''6b645e3a-d64f-4341-a6d8-7a3690fbf042'', prompt = p, photoReal = False,
     guidance_scale = 8, num_images = 1, reference = None\<rparr>"

text \<open>\<open>response.json()['sdGenerationJob']['generationId']\<close>.\<close>

definition generation_id_of :: "response \<Rightarrow> py_exn + string" where
  "generation_id_of r =
     (case json r of
        Inl e \<Rightarrow> Inl e
      | Inr b \<Rightarrow>
          (case subscript ''sdGenerationJob'' (sdGenerationJob b) of
             Inl e \<Rightarrow> Inl e
           | Inr job \<Rightarrow> subscript ''generationId'' job))"

text \<open>
  \<open>data.get('generations_by_pk', {})\<close> as the receiver of a further \<open>.get\<close>: the object, the
  empty dictionary for an absent key, and an \<open>AttributeError\<close> for \<open>null\<close>.
\<close>

definition generations_of :: "body \<Rightarrow> py_exn + generation" where
  "generations_of b =
     (case generations_by_pk b of
        Absent \<Rightarrow> Inr empty_generation
      | Null \<Rightarrow>
          Inl (AttributeError (repr_key ''NoneType'' @ '' object has no attribute '' @ repr_key ''get''))
      | Present g \<Rightarrow> Inr g)"

text \<open>
  The body of one turn of the polling loop, from the status check on: \<open>Inr (Some u)\<close> is
  the \<open>return\<close> of the first image's URL, \<open>Inr None\<close> falls through to the sleep.
\<close>

definition poll_check :: "response \<Rightarrow> py_exn + string option" where
  "poll_check r =
     (if status_code r = 200 then
        (case json r of
           Inl e \<Rightarrow> Inl e
         | Inr generation_data \<Rightarrow>
             (case generations_of generation_data of
                Inl e \<Rightarrow> Inl e
              | Inr g \<Rightarrow>
                  (if job_status g = Some ''COMPLETE'' then
                     (case get_default (job_images g) [] of
                        [] \<Rightarrow> Inr None
                      | i # _ \<Rightarrow>
                          (case subscript ''url'' (img_url i) of
                             Inl e \<Rightarrow> Inl e
                           | Inr u \<Rightarrow> Inr (Some u)))
                   else Inr None)))
      else Inr None)"

text \<open>\<open>for attempt in range(n)\<close>: \<open>Inr None\<close> when the loop ends without a return.\<close>

fun poll :: "env \<Rightarrow> string \<Rightarrow> nat \<Rightarrow> world \<Rightarrow> (py_exn + string option) \<times> world" where
  "poll e generation_id 0 w = (Inr None, w)"
| "poll e generation_id (Suc n) w =
     (case http e (GET_generations generation_id) w of
        (Inl x, w1) \<Rightarrow> (Inl x, w1)
      | (Inr results_response, w1) \<Rightarrow>
          (case poll_check results_response of
             Inl x \<Rightarrow> (Inl x, w1)
           | Inr (Some u) \<Rightarrow> (Inr (Some u), w1)
           | Inr None \<Rightarrow> poll e generation_id n (async_sleep poll_interval w1)))"

text \<open>The \<open>try\<close> block of \<open>generate_image\<close>.\<close>

definition generate_image_try :: "env \<Rightarrow> string \<Rightarrow> world \<Rightarrow> (py_exn + gen_result) \<times> world" where
  "generate_image_try e p w =
     (case http e (POST_generations (scratch_payload p)) (reply_text generating_text w) of
        (Inl x, w1) \<Rightarrow> (Inl x, w1)
      | (Inr resp, w1) \<Rightarrow>
          (if status_code resp \<noteq> 200 then
             (Inr (Error (''Generation failed with status '' @ str_int (status_code resp))), w1)
           else
             (case generation_id_of resp of
                Inl x \<Rightarrow> (Inl x, w1)
              | Inr generation_id \<Rightarrow>
                  (case poll e generation_id max_attempts w1 of
                     (Inl x, w2) \<Rightarrow> (Inl x, w2)
                   | (Inr (Some u), w2) \<Rightarrow> (Inr (Success u), w2)
                   | (Inr None, w2) \<Rightarrow> (Inr (Error timed_out_text), w2)))))"

text \<open>\<open>except Exception as e\<close>: the error dictionary with \<open>str(e)\<close>.\<close>

definition generate_image :: "env \<Rightarrow> string \<Rightarrow> world \<Rightarrow> gen_result \<times> world" where
  "generate_image e p w =
     (case generate_image_try e p w of
        (Inl x, w1) \<Rightarrow> (Error (str_exn x), w1)
      | (Inr r, w1) \<Rightarrow> (r, w1))"

subsection \<open>With a reference image\<close>

definition processing_reference_text :: string where
  "processing_reference_text =
     emoji_palette @ '' Processing your reference image and generating new image...\<newline>''
     @ ''This might take a minute or two. Please wait...''"

definition reference_payload :: "string \<Rightarrow> string \<Rightarrow> payload" where
  "reference_payload p image_id = \<lparr>height = 512, width = 1040,
     modelId = ''e71a1c2f-4f80-4800-934f-2c68979d8cc8'', prompt = p, photoReal = False,
     guidance_scale = 9, num_images = 1,
     reference = Some \<lparr>init_image_id = image_id, init_strength = ''0.05'',
       controlnets = [\<lparr>initImageId = image_id, initImageType = ''UPLOADED'',
         preprocessorId = 67, strengthType = ''Low''\<rparr>],
       presetStyle = ''DYNAMIC''\<rparr>\<rparr>"

text \<open>
  The three reads of \<open>upload_response.json()['uploadInitImage']\<close>, in the order of the
  source: the parsed fields, the URL, the image id.
\<close>

definition upload_data_of :: "response \<Rightarrow> py_exn + ((string \<times> string) list \<times> string \<times> string)" where
  "upload_data_of r =
     (case json r of
        Inl x \<Rightarrow> Inl x
      | Inr b \<Rightarrow>
          (case subscript ''uploadInitImage'' (uploadInitImage b) of
             Inl x \<Rightarrow> Inl x
           | Inr u \<Rightarrow>
               (case subscript ''fields'' (up_fields u) of
                  Inl x \<Rightarrow> Inl x
                | Inr (Inl x) \<Rightarrow> Inl x
                | Inr (Inr form_fields) \<Rightarrow>
                    (case subscript ''url'' (up_url u) of
                       Inl x \<Rightarrow> Inl x
                     | Inr url \<Rightarrow>
                         (case subscript ''id'' (up_id u) of
                            Inl x \<Rightarrow> Inl x
                          | Inr image_id \<Rightarrow> Inr (form_fields, url, image_id))))))"

text \<open>
  Step 1 and 2 of \<open>generate_image_with_reference\<close>: the upload slot, the download from
  the chat transport, the direct upload. It returns the image id.
\<close>

definition upload_reference :: "env \<Rightarrow> string \<Rightarrow> world \<Rightarrow> (py_exn + string) \<times> world" where
  "upload_reference e image_url w =
     (case http e (POST_init_image ''jpg'') w of
        (Inl x, w1) \<Rightarrow> (Inl x, w1)
      | (Inr upload_response, w1) \<Rightarrow>
          (if status_code upload_response \<noteq> 200 then
             (Inl (Exception ''Failed to get presigned URL from Leonardo''), w1)
           else
             (case upload_data_of upload_response of
                Inl x \<Rightarrow> (Inl x, w1)
              | Inr (form_fields, url, image_id) \<Rightarrow>
                  (case http e (GET_url image_url) w1 of
                     (Inl x, w2) \<Rightarrow> (Inl x, w2)
                   | (Inr image_response, w2) \<Rightarrow>
                       (if status_code image_response \<noteq> 200 then
                          (Inl (Exception ''Failed to download image from Telegram''), w2)
                        else
                          (case http e (POST_upload url form_fields (content image_response)) w2 of
                             (Inl x, w3) \<Rightarrow> (Inl x, w3)
                           | (Inr s3_response, w3) \<Rightarrow>
                               (if status_code s3_response \<noteq> 204 then
                                  (Inl (Exception ''Failed to upload to S3''), w3)
                                else (Inr image_id, w3))))))))"

text \<open>The submission of the job: it returns the generation id.\<close>

definition submit_reference :: "env \<Rightarrow> string \<Rightarrow> string \<Rightarrow> world \<Rightarrow> (py_exn + string) \<times> world" where
  "submit_reference e p image_id w =
     (case http e (POST_generations (reference_payload p image_id)) w of
        (Inl x, w1) \<Rightarrow> (Inl x, w1)
      | (Inr resp, w1) \<Rightarrow>
          (if status_code resp \<noteq> 200 then
             (Inl (Exception (''Generation failed with status '' @ str_int (status_code resp))), w1)
           else (generation_id_of resp, w1)))"

text \<open>What the code does with the answer to its one status check.\<close>

definition reference_check :: "response \<Rightarrow> py_exn + gen_result" where
  "reference_check results_response =
     (if status_code results_response = 200 then
        (case json results_response of
           Inl x \<Rightarrow> Inl x
         | Inr b \<Rightarrow>
             (case generations_of b of
                Inl x \<Rightarrow> Inl x
              | Inr g \<Rightarrow>
                  (case get_default (job_images g) [] of
                     [] \<Rightarrow> Inr (Error ''Failed to get generated image'')
                   | i # _ \<Rightarrow>
                       (case subscript ''url'' (img_url i) of
                          Inl x \<Rightarrow> Inl x
                        | Inr u \<Rightarrow> Inr (Success u)))))
      else Inr (Error ''Failed to get generated image''))"

text \<open>The sleep and the status check.\<close>

definition fetch_reference_result :: "env \<Rightarrow> string \<Rightarrow> world \<Rightarrow> (py_exn + gen_result) \<times> world" where
  "fetch_reference_result e generation_id w =
     (case http e (GET_generations generation_id) (time_sleep 20 w) of
        (Inl x, w1) \<Rightarrow> (Inl x, w1)
      | (Inr results_response, w1) \<Rightarrow> (reference_check results_response, w1))"

definition generate_image_with_reference_try ::
  "env \<Rightarrow> string \<Rightarrow> string \<Rightarrow> world \<Rightarrow> (py_exn + gen_result) \<times> world" where
  "generate_image_with_reference_try e p image_url w =
     (case upload_reference e image_url (reply_text processing_reference_text w) of
        (Inl x, w1) \<Rightarrow> (Inl x, w1)
      | (Inr image_id, w1) \<Rightarrow>
          (case submit_reference e p image_id w1 of
             (Inl x, w2) \<Rightarrow> (Inl x, w2)
           | (Inr generation_id, w2) \<Rightarrow> fetch_reference_result e generation_id w2))"

definition generate_image_with_reference ::
  "env \<Rightarrow> string \<Rightarrow> string \<Rightarrow> world \<Rightarrow> gen_result \<times> world" where
  "generate_image_with_reference e p image_url w =
     (case generate_image_with_reference_try e p image_url w of
        (Inl x, w1) \<Rightarrow> (Error (str_exn x), w1)
      | (Inr r, w1) \<Rightarrow> (r, w1))"

section \<open>The conversation handlers\<close>

text \<open>\<open>self.user_data[user_id]\<close>.\<close>

definition session_of :: "world \<Rightarrow> int \<Rightarrow> py_exn + session" where
  "session_of w user_id =
     (case user_data w user_id of None \<Rightarrow> Inl (KeyError (str_int user_id)) | Some s \<Rightarrow> Inr s)"

definition put_session :: "int \<Rightarrow> session \<Rightarrow> world \<Rightarrow> world" where
  "put_session user_id s w = w\<lparr>user_data := (user_data w)(user_id \<mapsto> s)\<rparr>"

subsection \<open>The texts\<close>

definition welcome_message :: string where
  "welcome_message =
     emoji_wave @ '' Welcome to the AI Content Generation Bot!\<newline>\<newline>''
     @ ''I'll help you create amazing meme videos for your community. ''
     @ ''Let's follow these steps:\<newline>\<newline>''
     @ keycap CHR ''1'' @ '' First, tell me about your memecoin character and what kind of content you want to create\<newline>''
     @ keycap CHR ''2'' @ '' We'll work together to create the perfect prompt\<newline>''
     @ keycap CHR ''3'' @ '' Generate and refine images\<newline>''
     @ keycap CHR ''4'' @ '' Create a video\<newline>''
     @ keycap CHR ''5'' @ '' Add voice-over\<newline>\<newline>''
     @ ''Please describe your character and what you'd like to create!''"

definition too_long_text :: "string \<Rightarrow> string" where
  "too_long_text user_text =
     emoji_memo @ '' Your prompt is too long! Please keep it under 200 characters.\<newline>\<newline>''
     @ ''Current length: '' @ str_int (int (py_len user_text)) @ '' characters\<newline>\<newline>''
     @ ''Please try again with a shorter description.''"

definition trouble_text :: string where
  "trouble_text = ''Sorry, I had trouble enhancing your prompt. Would you like to try again?''"

definition enhance_error_text :: string where
  "enhance_error_text = ''Sorry, there was an error enhancing your prompt. Would you like to try again?''"

definition enhanced_text :: "string \<Rightarrow> string \<Rightarrow> string" where
  "enhanced_text user_text enhanced =
     ''I've enhanced your prompt. Here's what I suggest:\<newline>\<newline>''
     @ ''Original: '' @ user_text @ ''\<newline>''
     @ ''Enhanced: '' @ enhanced @ ''\<newline>\<newline>''
     @ ''Would you like to:\<newline>''
     @ keycap CHR ''1'' @ '' Use this enhanced prompt\<newline>''
     @ keycap CHR ''2'' @ '' Try another enhancement\<newline>''
     @ keycap CHR ''3'' @ '' Use your original prompt\<newline>''
     @ ''Please respond with 1, 2, or 3''"

definition prompt_choice_again_text :: string where
  "prompt_choice_again_text =
     ''Please respond with 1, 2, or 3:\<newline>''
     @ keycap CHR ''1'' @ '' Use enhanced prompt\<newline>''
     @ keycap CHR ''2'' @ '' Try another enhancement\<newline>''
     @ keycap CHR ''3'' @ '' Use original prompt''"

definition reference_question_text :: string where
  "reference_question_text =
     ''Do you have a reference image you'd like to use?\<newline>''
     @ keycap CHR ''1'' @ '' Yes, I'll upload an image\<newline>''
     @ keycap CHR ''2'' @ '' No, generate from scratch\<newline>''
     @ ''Please respond with 1 or 2''"

definition reference_choice_again_text :: string where
  "reference_choice_again_text =
     ''Please respond with 1 or 2:\<newline>''
     @ keycap CHR ''1'' @ '' Yes, I'll upload an image\<newline>''
     @ keycap CHR ''2'' @ '' No, generate from scratch''"

definition upload_request_text :: string where
  "upload_request_text = ''Please upload your reference image.''"

definition lost_prompt_text :: string where
  "lost_prompt_text =
     ''Sorry, I've lost track of your prompt. Let's start over.\<newline>''
     @ ''Please provide a new prompt for your image.''"

definition generated_caption :: string where
  "generated_caption =
     ''Here's your generated image! Would you like to:\<newline>''
     @ keycap CHR ''1'' @ '' Try again\<newline>''
     @ keycap CHR ''2'' @ '' Modify the prompt\<newline>''
     @ ''Please respond with 1 or 2''"

definition generation_error_text :: string where
  "generation_error_text =
     ''Sorry, there was an error generating the images. Would you like to:\<newline>''
     @ keycap CHR ''1'' @ '' Try again\<newline>''
     @ keycap CHR ''2'' @ '' Modify the prompt\<newline>''
     @ ''Please respond with 1 or 2''"

definition iteration_again_text :: string where
  "iteration_again_text =
     ''Please respond with 1 or 2:\<newline>''
     @ keycap CHR ''1'' @ '' Try again\<newline>''
     @ keycap CHR ''2'' @ '' Modify the prompt''"

definition new_prompt_text :: string where
  "new_prompt_text = ''Please provide a new prompt for your image.''"

definition cancel_text :: string where
  "cancel_text = ''Operation cancelled. Type /start to begin again.''"

text \<open>The texts of \<open>handle_image_generation\<close>.\<close>

definition follow_up_text :: string where
  "follow_up_text =
     ''What would you like to do?\<newline>\<newline>''
     @ keycap CHR ''1'' @ '' Use this image\<newline>''
     @ keycap CHR ''2'' @ '' Generate new variations\<newline>''
     @ keycap CHR ''3'' @ '' Modify the prompt\<newline>\<newline>''
     @ ''Please respond with a number 1-3''"

definition generation_error_text_spaced :: string where
  "generation_error_text_spaced =
     ''Sorry, there was an error generating the images. Would you like to:\<newline>\<newline>''
     @ keycap CHR ''1'' @ '' Try again\<newline>''
     @ keycap CHR ''2'' @ '' Modify the prompt\<newline>\<newline>''
     @ ''Please respond with 1 or 2''"

subsection \<open>\<open>start\<close> and \<open>cancel\<close>\<close>

definition start :: "world \<Rightarrow> States \<times> world" where
  "start w = (INITIAL_PROMPT, reply_text welcome_message w)"

text \<open>\<open>cancel\<close> returns \<open>ConversationHandler.END\<close>; the dispatcher ends the conversation.\<close>

definition cancel :: "world \<Rightarrow> world" where
  "cancel w = reply_text cancel_text w"

text \<open>The result of a handler that has returned: its state, no exception.\<close>

definition returns :: "States \<times> world \<Rightarrow> (py_exn + States) \<times> world" where
  "returns r = (Inr (fst r), snd r)"

subsection \<open>\<open>handle_initial_prompt\<close>\<close>

text \<open>\<open>enhanced_prompt_response.json()['promptGeneration']['prompt']\<close>.\<close>

definition enhanced_prompt_of :: "response \<Rightarrow> py_exn + string" where
  "enhanced_prompt_of r =
     (case json r of
        Inl x \<Rightarrow> Inl x
      | Inr b \<Rightarrow>
          (case subscript ''promptGeneration'' (promptGeneration b) of
             Inl x \<Rightarrow> Inl x
           | Inr g \<Rightarrow> subscript ''prompt'' g))"

text \<open>The \<open>try\<close> block, entered after the original prompt is stored.\<close>

definition handle_initial_prompt_try ::
  "env \<Rightarrow> int \<Rightarrow> string \<Rightarrow> world \<Rightarrow> (py_exn + States) \<times> world" where
  "handle_initial_prompt_try e user_id user_text w =
     (case http e (POST_prompt_improve user_text) w of
        (Inl x, w1) \<Rightarrow> (Inl x, w1)
      | (Inr r, w1) \<Rightarrow>
          (if status_code r \<noteq> 200 then
             (case json r of
                Inl x \<Rightarrow> (Inl x, w1)
              | Inr b \<Rightarrow>
                  (if contains ''too long'' (lower (get_default (body_error b) ''Unknown error''))
                   then (Inr INITIAL_PROMPT, reply_text (too_long_text user_text) w1)
                   else (Inr INITIAL_PROMPT, reply_text trouble_text w1)))
           else
             (case enhanced_prompt_of r of
                Inl x \<Rightarrow> (Inl x, w1)
              | Inr enhanced \<Rightarrow>
                  (case session_of w1 user_id of
                     Inl x \<Rightarrow> (Inl x, w1)
                   | Inr s \<Rightarrow>
                       (Inr CHOOSING_PROMPT,
                        reply_text (enhanced_text user_text enhanced)
                          (put_session user_id (s\<lparr>enhanced_prompt := Some enhanced\<rparr>) w1))))))"

definition handle_initial_prompt :: "env \<Rightarrow> int \<Rightarrow> string \<Rightarrow> world \<Rightarrow> States \<times> world" where
  "handle_initial_prompt e user_id user_text w =
     (case handle_initial_prompt_try e user_id user_text
             (put_session user_id (empty_session\<lparr>original_prompt := Some user_text\<rparr>) w) of
        (Inl x, w1) \<Rightarrow> (INITIAL_PROMPT, reply_text enhance_error_text w1)
      | (Inr st, w1) \<Rightarrow> (st, w1))"

subsection \<open>\<open>handle_prompt_choice\<close>\<close>

text \<open>
  Choice \<open>2\<close> stores the original prompt in \<open>context.user_data\<close>, assigns it to
  \<open>update.message.text\<close> and calls \<open>handle_initial_prompt\<close> on the update.
\<close>

definition handle_prompt_choice ::
  "env \<Rightarrow> int \<Rightarrow> string \<Rightarrow> world \<Rightarrow> (py_exn + States) \<times> world" where
  "handle_prompt_choice e user_id user_choice w =
     (if user_choice \<notin> set [''1'', ''2'', ''3''] then
        (Inr CHOOSING_PROMPT, reply_text prompt_choice_again_text w)
      else if user_choice = ''2'' then
        (case session_of w user_id of
           Inl x \<Rightarrow> (Inl x, w)
         | Inr s \<Rightarrow>
             (case subscript ''original_prompt'' (original_prompt s) of
                Inl x \<Rightarrow> (Inl x, w)
              | Inr original \<Rightarrow>
                  (if frozen_messages e then
                     (Inl (AttributeError ''Attribute `text` of class `Message` can't be set!''),
                      w\<lparr>original_text := (original_text w)(user_id \<mapsto> original)\<rparr>)
                   else
                     returns (handle_initial_prompt e user_id original
                       (w\<lparr>original_text := (original_text w)(user_id \<mapsto> original)\<rparr>)))))
      else
        (case session_of w user_id of
           Inl x \<Rightarrow> (Inl x, w)
         | Inr s \<Rightarrow>
             (case (if user_choice = ''1'' then subscript ''enhanced_prompt'' (enhanced_prompt s)
                    else subscript ''original_prompt'' (original_prompt s)) of
                Inl x \<Rightarrow> (Inl x, w)
              | Inr chosen_prompt \<Rightarrow>
                  (Inr REFERENCE_CHOICE,
                   reply_text reference_question_text
                     (put_session user_id (s\<lparr>final_prompt := Some chosen_prompt\<rparr>) w)))))"

subsection \<open>\<open>start_image_generation\<close>\<close>

text \<open>
  The \<open>try\<close> block up to the result of the generation call. \<open>user_data.get(user_id, {})\<close>
  is the session or the empty dictionary; the keyword arguments are read in the order
  they are written.
\<close>

definition start_image_generation_call ::
  "env \<Rightarrow> int \<Rightarrow> world \<Rightarrow> (py_exn + gen_result) \<times> world" where
  "start_image_generation_call e user_id w =
     (let ud = get_default (user_data w user_id) empty_session in
      (case reference_image ud of
         Some ref \<Rightarrow>
           (case subscript ''final_prompt'' (final_prompt ud) of
              Inl x \<Rightarrow> (Inl x, w)
            | Inr p \<Rightarrow>
                (case generate_image_with_reference e p (file_path ref) w of
                   (r, w1) \<Rightarrow> (Inr r, w1)))
       | None \<Rightarrow>
           (case subscript ''final_prompt'' (final_prompt ud) of
              Inl x \<Rightarrow> (Inl x, w)
            | Inr p \<Rightarrow>
                (case generate_image e p w of
                   (r, w1) \<Rightarrow> (Inr r, w1)))))"

definition start_image_generation :: "env \<Rightarrow> int \<Rightarrow> world \<Rightarrow> States \<times> world" where
  "start_image_generation e user_id w =
     (case start_image_generation_call e user_id w of
        (Inl x, w1) \<Rightarrow> (ITERATING_IMAGE, reply_text generation_error_text w1)
      | (Inr (Success u), w1) \<Rightarrow> (ITERATING_IMAGE, reply_photo u generated_caption w1)
      | (Inr (Error m), w1) \<Rightarrow> (ITERATING_IMAGE, reply_text generation_error_text w1))"

subsection \<open>\<open>handle_reference_choice\<close>, \<open>handle_reference_image\<close>, \<open>handle_image_iteration\<close>\<close>

definition handle_reference_choice :: "env \<Rightarrow> int \<Rightarrow> string \<Rightarrow> world \<Rightarrow> States \<times> world" where
  "handle_reference_choice e user_id user_choice w =
     (if user_choice \<notin> set [''1'', ''2''] then
        (REFERENCE_CHOICE, reply_text reference_choice_again_text w)
      else if user_choice = ''1'' then
        (AWAITING_REFERENCE, reply_text upload_request_text w)
      else start_image_generation e user_id w)"

text \<open>
  \<open>photo\<close> holds the file ids of the photo's sizes; \<open>photo[-1]\<close> is the last and raises
  on the empty list.
\<close>

definition handle_reference_image ::
  "env \<Rightarrow> int \<Rightarrow> string list \<Rightarrow> world \<Rightarrow> (py_exn + States) \<times> world" where
  "handle_reference_image e user_id photo w =
     (case user_data w user_id of
        None \<Rightarrow> (Inr INITIAL_PROMPT, reply_text lost_prompt_text w)
      | Some s \<Rightarrow>
          (if final_prompt s = None then (Inr INITIAL_PROMPT, reply_text lost_prompt_text w)
           else if photo = [] then (Inl (IndexError ''list index out of range''), w)
           else
             (case get_file e (last photo) of
                Inl x \<Rightarrow> (Inl x, w)
              | Inr path \<Rightarrow>
                  returns (start_image_generation e user_id
                    (put_session user_id
                       (s\<lparr>reference_image := Some \<lparr>file_id = last photo, file_path = path\<rparr>\<rparr>) w)))))"

definition handle_image_iteration ::
  "env \<Rightarrow> int \<Rightarrow> string \<Rightarrow> world \<Rightarrow> (py_exn + States) \<times> world" where
  "handle_image_iteration e user_id user_choice w =
     (if user_choice \<notin> set [''1'', ''2''] then
        (Inr ITERATING_IMAGE, reply_text iteration_again_text w)
      else if user_choice = ''1'' then
        returns (start_image_generation e user_id w)
      else
        (case session_of w user_id of
           Inl x \<Rightarrow> (Inl x, w)
         | Inr s \<Rightarrow>
             (Inr INITIAL_PROMPT,
              reply_text new_prompt_text
                (put_session user_id
                   (empty_session\<lparr>original_prompt := Some (get_default (original_prompt s) [])\<rparr>) w))))"

subsection \<open>\<open>handle_image_generation\<close>\<close>

text \<open>
  Both generation functions declare \<open>message_obj\<close> without a default, and this handler
  calls them without it: once the arguments are evaluated the call raises.
\<close>

definition missing_message_obj :: "string \<Rightarrow> py_exn" where
  "missing_message_obj f =
     TypeError (''ContentGenerationBot.'' @ f
       @ ''() missing 1 required positional argument: '' @ repr_key ''message_obj'')"

definition handle_image_generation_call ::
  "env \<Rightarrow> int \<Rightarrow> world \<Rightarrow> (py_exn + gen_result) \<times> world" where
  "handle_image_generation_call e user_id w =
     (let ud = get_default (user_data w user_id) empty_session in
      (case reference_image ud of
         Some ref \<Rightarrow>
           (case subscript ''final_prompt'' (final_prompt ud) of
              Inl x \<Rightarrow> (Inl x, w)
            | Inr p \<Rightarrow> (Inl (missing_message_obj ''generate_image_with_reference''), w))
       | None \<Rightarrow>
           (case subscript ''final_prompt'' (final_prompt ud) of
              Inl x \<Rightarrow> (Inl x, w)
            | Inr p \<Rightarrow> (Inl (missing_message_obj ''generate_image''), w))))"

text \<open>The \<open>try\<close> block: the success branch, and the \<open>raise\<close> of the error branch.\<close>

definition handle_image_generation_try ::
  "env \<Rightarrow> int \<Rightarrow> world \<Rightarrow> (py_exn + States) \<times> world" where
  "handle_image_generation_try e user_id w =
     (case handle_image_generation_call e user_id w of
        (Inl x, w1) \<Rightarrow> (Inl x, w1)
      | (Inr (Success u), w1) \<Rightarrow>
          (case session_of w1 user_id of
             Inl x \<Rightarrow> (Inl x, w1)
           | Inr s \<Rightarrow>
               (Inr ITERATING_IMAGE,
                reply_text follow_up_text
                  (reply_photo u ''Generated Image''
                     (put_session user_id (s\<lparr>generated_images := Some [u]\<rparr>) w1))))
      | (Inr (Error m), w1) \<Rightarrow> (Inl (Exception (''Generation failed: '' @ m)), w1))"

definition handle_image_generation :: "env \<Rightarrow> int \<Rightarrow> world \<Rightarrow> States \<times> world" where
  "handle_image_generation e user_id w =
     (case handle_image_generation_try e user_id w of
        (Inl x, w1) \<Rightarrow> (GENERATING_IMAGE, reply_text generation_error_text_spaced w1)
      | (Inr st, w1) \<Rightarrow> (st, w1))"

section \<open>The conversation handler of \<open>main\<close>\<close>

text \<open>
  An update comes from a user in a chat. Its message is a command (its name), a text that
  is no command, a photo (the file ids of its sizes, smallest first) or anything else.
\<close>

datatype message = Command string | Text string | Photo "string list" | Other

record update =
  effective_chat :: int
  effective_user :: int
  message :: message

text \<open>
  \<open>main\<close> builds the conversation handler without \<open>per_chat\<close> or \<open>per_user\<close>, so both
  have their default and a conversation is that of one user in one chat.
\<close>

definition conversation_key :: "update \<Rightarrow> int \<times> int" where
  "conversation_key upd = (effective_chat upd, effective_user upd)"

text \<open>
  The handler table: the handler that the filters of a state select for a message, run on
  the world; \<open>None\<close> when no filter of the state matches.
\<close>

fun dispatch ::
  "env \<Rightarrow> States \<Rightarrow> int \<Rightarrow> message \<Rightarrow> world \<Rightarrow> ((py_exn + States) \<times> world) option" where
  "dispatch e INITIAL_PROMPT user_id (Text t) w =
     Some (returns (handle_initial_prompt e user_id t w))"
| "dispatch e CHOOSING_PROMPT user_id (Text t) w = Some (handle_prompt_choice e user_id t w)"
| "dispatch e REFERENCE_CHOICE user_id (Text t) w =
     Some (returns (handle_reference_choice e user_id t w))"
| "dispatch e AWAITING_REFERENCE user_id (Photo p) w =
     (if p = [] then None else Some (handle_reference_image e user_id p w))"
| "dispatch e GENERATING_IMAGE user_id (Command c) w = None"
| "dispatch e GENERATING_IMAGE user_id m w =
     Some (returns (start_image_generation e user_id w))"
| "dispatch e ITERATING_IMAGE user_id (Text t) w = Some (handle_image_iteration e user_id t w)"
| "dispatch e st user_id m w = None"

text \<open>
  One update through the conversation handler. Where the key has no conversation,
  \<open>/start\<close> opens one. Otherwise the state's handler runs and its return value is the next
  state; a handler that raises leaves the state as it was. Where no handler matches,
  \<open>/cancel\<close> ends the conversation and every other update is dropped. The handlers
  themselves read and write \<open>self.user_data\<close> under the user alone.
\<close>

definition process_update :: "env \<Rightarrow> update \<Rightarrow> world \<Rightarrow> world" where
  "process_update e upd w =
     (case conversations w (conversation_key upd) of
        None \<Rightarrow>
          (if message upd = Command ''start'' then
             (case start w of
                (st, w1) \<Rightarrow> w1\<lparr>conversations := (conversations w1)(conversation_key upd \<mapsto> st)\<rparr>)
           else w)
      | Some st \<Rightarrow>
          (case dispatch e st (effective_user upd) (message upd) w of
             Some (Inr st', w1) \<Rightarrow>
               w1\<lparr>conversations := (conversations w1)(conversation_key upd \<mapsto> st')\<rparr>
           | Some (Inl x, w1) \<Rightarrow> w1
           | None \<Rightarrow>
               (if message upd = Command ''cancel'' then
                  (cancel w)\<lparr>conversations := (conversations w)(conversation_key upd := None)\<rparr>
                else w)))"

definition fresh_world :: world where
  "fresh_world = \<lparr>user_data = Map.empty, original_text = Map.empty,
     conversations = Map.empty, requests_made = 0, trace = []\<rparr>"

text \<open>The worlds the bot can be in: any updates, against any collaborators.\<close>

inductive reachable :: "world \<Rightarrow> bool" where
  fresh: "reachable fresh_world"
| step: "reachable w \<Longrightarrow> reachable (process_update e upd w)"


section \<open>Vocabulary of the properties\<close>

subsection \<open>What a status response says\<close>

text \<open>
  In the words of the service contract: the response reports the job complete with at
  least one image, or complete with none; it carries an image at all; the URL of its
  first image. A status answer is well formed when the loop can read it: any answer
  whose status is not 200, whatever its body, and an answer of status 200 with a JSON
  body whose \<open>generations_by_pk\<close> is not \<open>null\<close>. \<open>polls g n\<close> is \<open>n\<close> status requests for job
  \<open>g\<close>, each followed by the two-second sleep; \<open>is_submission\<close> picks the submissions of a
  job out of a trace.
\<close>

definition reports_complete_with_image :: "response \<Rightarrow> bool" where
  "reports_complete_with_image r =
     (status_code r = 200 \<and>
      (case json r of
         Inl x \<Rightarrow> False
       | Inr b \<Rightarrow>
           (case generations_by_pk b of
              Absent \<Rightarrow> False
            | Null \<Rightarrow> False
            | Present g \<Rightarrow>
                job_status g = Some ''COMPLETE'' \<and>
                (case job_images g of None \<Rightarrow> False | Some [] \<Rightarrow> False | Some (i # rest) \<Rightarrow> True))))"

definition reports_complete_without_images :: "response \<Rightarrow> bool" where
  "reports_complete_without_images r =
     (status_code r = 200 \<and>
      (case json r of
         Inl x \<Rightarrow> False
       | Inr b \<Rightarrow>
           (case generations_by_pk b of
              Absent \<Rightarrow> False
            | Null \<Rightarrow> False
            | Present g \<Rightarrow>
                job_status g = Some ''COMPLETE'' \<and>
                (case job_images g of None \<Rightarrow> True | Some [] \<Rightarrow> True | Some (i # rest) \<Rightarrow> False))))"

definition has_images :: "response \<Rightarrow> bool" where
  "has_images r =
     (case json r of
        Inl x \<Rightarrow> False
      | Inr b \<Rightarrow>
          (case generations_by_pk b of
             Absent \<Rightarrow> False
           | Null \<Rightarrow> False
           | Present g \<Rightarrow> (case job_images g of None \<Rightarrow> False | Some [] \<Rightarrow> False | Some (i # rest) \<Rightarrow> True)))"

definition first_image_url :: "response \<Rightarrow> string option" where
  "first_image_url r =
     (case json r of
        Inl x \<Rightarrow> None
      | Inr b \<Rightarrow>
          (case generations_by_pk b of
             Absent \<Rightarrow> None
           | Null \<Rightarrow> None
           | Present g \<Rightarrow> (case job_images g of None \<Rightarrow> None | Some [] \<Rightarrow> None | Some (i # rest) \<Rightarrow> img_url i)))"

definition well_formed_status :: "response \<Rightarrow> bool" where
  "well_formed_status r =
     (if status_code r = 200
      then (case json r of Inl x \<Rightarrow> False | Inr b \<Rightarrow> generations_by_pk b \<noteq> Null)
      else True)"

definition polls :: "string \<Rightarrow> nat \<Rightarrow> event list" where
  "polls g n = concat (replicate n [Http (GET_generations g), AsyncSleep 2])"

fun is_submission :: "event \<Rightarrow> bool" where
  "is_submission (Http (POST_generations pl)) = True"
| "is_submission ev = False"

subsection \<open>The invariants of the conversation\<close>


definition has_original :: "session option \<Rightarrow> bool" where
  "has_original so = (case so of None \<Rightarrow> False | Some s \<Rightarrow> original_prompt s \<noteq> None)"



definition state_backed :: "States \<Rightarrow> session option \<Rightarrow> bool" where
  "state_backed st so = (if st = INITIAL_PROMPT then True else has_original so)"

definition consistent :: "world \<Rightarrow> bool" where
  "consistent w =
     (\<forall>c u. case conversations w (c, u) of None \<Rightarrow> True
              | Some st \<Rightarrow> state_backed st (user_data w u))"



definition framed :: "int \<Rightarrow> world \<Rightarrow> world \<Rightarrow> bool" where
  "framed u w w1 =
     (conversations w1 = conversations w \<and>
      (\<forall>v. v = u \<or> user_data w1 v = user_data w v) \<and>
      (if has_original (user_data w u) then has_original (user_data w1 u) else True))"

definition store_kept :: "world \<Rightarrow> world \<Rightarrow> bool" where
  "store_kept w w1 = (user_data w1 = user_data w \<and> conversations w1 = conversations w)"

subsection \<open>Runs and canned collaborators\<close>

text \<open>
  \<open>run\<close> feeds updates to the conversation handler one after the other. A scripted
  network answers the \<open>n\<close>-th request with the \<open>n\<close>-th entry of a list and refuses the
  connection after the last. The scenario is the one of the specification: user 1, in the
  private chat 1, starts, describes a frog astronaut and takes the enhanced prompt. In
  the group chat \<open>- 1001\<close> the same user then starts again and asks for a robot.
\<close>

fun run :: "env \<Rightarrow> update list \<Rightarrow> world \<Rightarrow> world" where
  "run e [] w = w"
| "run e (upd # upds) w = run e upds (process_update e upd w)"

definition says :: "int \<Rightarrow> int \<Rightarrow> message \<Rightarrow> update" where
  "says c u m = \<lparr>effective_chat = c, effective_user = u, message = m\<rparr>"

definition scripted :: "(py_exn + response) list \<Rightarrow> nat \<Rightarrow> py_exn + response" where
  "scripted rs n = (if n < length rs then rs ! n else Inl (RequestException ''connection refused''))"

definition mock_env :: "(py_exn + response) list \<Rightarrow> env" where
  "mock_env rs = \<lparr>net = scripted rs, get_file = (\<lambda>file. Inr (''https://files/'' @ file)),
     frozen_messages = False\<rparr>"

definition mock_plain :: "int \<Rightarrow> string \<Rightarrow> response" where
  "mock_plain code bytes = \<lparr>status_code = code,
     json = Inl (JSONDecodeError ''Expecting value: line 1 column 1 (char 0)''), content = bytes\<rparr>"

definition mock_improved :: "string \<Rightarrow> response" where
  "mock_improved p = \<lparr>status_code = 200,
     json = Inr (empty_body\<lparr>promptGeneration := Some (Some p)\<rparr>), content = []\<rparr>"

definition mock_submitted :: response where
  "mock_submitted = \<lparr>status_code = 200,
     json = Inr (empty_body\<lparr>sdGenerationJob := Some (Some ''job-1'')\<rparr>), content = []\<rparr>"

definition mock_status :: "string \<Rightarrow> string list \<Rightarrow> response" where
  "mock_status st urls = \<lparr>status_code = 200,
     json = Inr (empty_body\<lparr>generations_by_pk :=
       Present \<lparr>job_status = Some st, job_images = Some (map (\<lambda>u. \<lparr>img_url = Some u\<rparr>) urls)\<rparr>\<rparr>),
     content = []\<rparr>"


definition mock_upload_slot :: response where
  "mock_upload_slot = \<lparr>status_code = 200,
     json = Inr (empty_body\<lparr>uploadInitImage :=
       Some \<lparr>up_fields = Some (Inr [(''key'', ''uploads/img-1.jpg'')]),
         up_url = Some ''https://bucket/upload'', up_id = Some ''img-1''\<rparr>\<rparr>),
     content = []\<rparr>"

definition mock_uploaded_trace :: "string \<Rightarrow> event list" where
  "mock_uploaded_trace image_url =
     [ReplyText processing_reference_text, Http (POST_init_image ''jpg''), Http (GET_url image_url),
      Http (POST_upload ''https://bucket/upload'' [(''key'', ''uploads/img-1.jpg'')] ''JPEG'')]"

definition chosen_session :: "string \<Rightarrow> string \<Rightarrow> session" where
  "chosen_session t enh = \<lparr>original_prompt = Some t, enhanced_prompt = Some enh,
     final_prompt = Some enh, reference_image = None, generated_images = None\<rparr>"

definition scenario_env :: env where
  "scenario_env = mock_env [Inr (mock_improved ''a pixel-art frog astronaut, 8-bit palette''),
     Inr mock_submitted, Inr (mock_status ''COMPLETE'' [''http://img/1.png''])]"

definition scenario_updates :: "update list" where
  "scenario_updates = [says 1 1 (Command ''start''), says 1 1 (Text ''a pixel-art frog astronaut''),
     says 1 1 (Text ''1'')]"


definition scenario_session :: session where
  "scenario_session = chosen_session ''a pixel-art frog astronaut''
     ''a pixel-art frog astronaut, 8-bit palette''"

definition scenario_trace :: "event list" where
  "scenario_trace = [ReplyText welcome_message,
     Http (POST_prompt_improve ''a pixel-art frog astronaut''),
     ReplyText (enhanced_text ''a pixel-art frog astronaut''
        ''a pixel-art frog astronaut, 8-bit palette''),
     ReplyText reference_question_text]"

definition failing_env :: env where
  "failing_env = mock_env [Inr (mock_plain 500 [])]"

definition prompted_world :: "States \<Rightarrow> world" where
  "prompted_world st = fresh_world\<lparr>user_data := [1 \<mapsto> scenario_session],
     conversations := [(1, 1) \<mapsto> st]\<rparr>"

section \<open>Properties of the generation client\<close>

lemma reports_complete_with_imageD:
  "reports_complete_with_image r \<Longrightarrow>
   \<exists>b g i rest. status_code r = 200 \<and> json r = Inr b \<and> generations_by_pk b = Present g \<and>
     job_status g = Some ''COMPLETE'' \<and> job_images g = Some (i # rest)"
  by (auto simp: reports_complete_with_image_def
      split: sum.splits entry.splits option.splits list.splits)

lemma has_imagesD:
  "has_images r \<Longrightarrow>
   \<exists>b g i rest. json r = Inr b \<and> generations_by_pk b = Present g \<and> job_images g = Some (i # rest)"
  by (auto simp: has_images_def split: sum.splits entry.splits option.splits list.splits)

lemma poll_check_pending:
  assumes "well_formed_status r" "\<not> reports_complete_with_image r"
  shows "poll_check r = Inr None"
proof (cases "status_code r = 200")
  case False
  then show ?thesis by (simp add: poll_check_def)
next
  case True
  with assms(1) obtain b where b: "json r = Inr b" "generations_by_pk b \<noteq> Null"
    by (auto simp: well_formed_status_def split: sum.splits)
  show ?thesis
  proof (cases "generations_by_pk b")
    case Absent
    with True b show ?thesis
      by (simp add: poll_check_def generations_of_def empty_generation_def)
  next
    case Null
    with b show ?thesis by simp
  next
    case (Present g)
    with assms(2) True b
    have "job_status g \<noteq> Some ''COMPLETE'' \<or> get_default (job_images g) [] = []"
      by (auto simp: reports_complete_with_image_def get_default_def
          split: option.splits list.splits)
    with True b Present show ?thesis
      by (auto simp: poll_check_def generations_of_def)
  qed
qed

lemma poll_check_complete:
  assumes "reports_complete_with_image r" "first_image_url r = Some u"
  shows "poll_check r = Inr (Some u)"
proof -
  from reports_complete_with_imageD [OF assms(1)]
  obtain b g i rest where d: "status_code r = 200" "json r = Inr b"
    "generations_by_pk b = Present g" "job_status g = Some ''COMPLETE''"
    "job_images g = Some (i # rest)" by blast
  with assms(2) have "img_url i = Some u"
    by (simp add: first_image_url_def)
  with d show ?thesis
    by (simp add: poll_check_def generations_of_def get_default_def subscript_def)
qed

lemma poll_pending:
  "\<forall>i<n. \<exists>r. net e (requests_made w + i) = Inr r \<and> poll_check r = Inr None \<Longrightarrow>
   poll e g (n + m) w =
   poll e g m (w\<lparr>requests_made := requests_made w + n, trace := trace w @ polls g n\<rparr>)"
proof (induction n arbitrary: w)
  case 0
  then show ?case by (simp add: polls_def)
next
  case (Suc n)
  from Suc.prems obtain r where r: "net e (requests_made w) = Inr r" "poll_check r = Inr None"
    by force
  let ?w1 = "async_sleep poll_interval (snd (http e (GET_generations g) w))"
  have "\<forall>i<n. \<exists>r. net e (requests_made ?w1 + i) = Inr r \<and> poll_check r = Inr None"
  proof (intro allI impI)
    fix i assume "i < n"
    then have "Suc i < Suc n" by simp
    with Suc.prems obtain r' where "net e (requests_made w + Suc i) = Inr r'" "poll_check r' = Inr None"
      by blast
    then show "\<exists>r. net e (requests_made ?w1 + i) = Inr r \<and> poll_check r = Inr None"
      by (simp add: http_def async_sleep_def)
  qed
  from Suc.IH [OF this] have "poll e g (n + m) ?w1 =
    poll e g m (?w1\<lparr>requests_made := requests_made ?w1 + n, trace := trace ?w1 @ polls g n\<rparr>)" .
  moreover have "poll e g (Suc n + m) w = poll e g (n + m) ?w1"
    using r by (simp add: http_def)
  ultimately show ?case
    by (simp add: http_def async_sleep_def polls_def poll_interval_def)
qed

lemma poll_none_counts:
  "poll e g n w = (Inr None, w1) \<Longrightarrow> requests_made w1 = requests_made w + n"
proof (induction n arbitrary: w)
  case 0
  then show ?case by simp
next
  case (Suc n)
  from Suc.prems obtain r where r: "net e (requests_made w) = Inr r" "poll_check r = Inr None"
    and rest: "poll e g n (async_sleep poll_interval (snd (http e (GET_generations g) w))) = (Inr None, w1)"
    by (auto simp: http_def split: sum.splits option.splits)
  from Suc.IH [OF rest] show ?case
    by (simp add: http_def async_sleep_def)
qed

lemma generate_image_submitted:
  assumes "net e (requests_made w) = Inr s" "status_code s = 200" "json s = Inr b"
    "sdGenerationJob b = Some (Some g)"
  shows "generate_image e p w =
    (case poll e g 30 (w\<lparr>requests_made := Suc (requests_made w),
            trace := trace w @ [ReplyText generating_text, Http (POST_generations (scratch_payload p))]\<rparr>) of
       (Inl x, w2) \<Rightarrow> (Error (str_exn x), w2)
     | (Inr (Some u), w2) \<Rightarrow> (Success u, w2)
     | (Inr None, w2) \<Rightarrow> (Error timed_out_text, w2))"
  using assms
  by (simp add: generate_image_def generate_image_try_def http_def reply_text_def
      generation_id_of_def subscript_def max_attempts_def split: prod.splits sum.splits option.splits)






lemma poll_check_no_images:
  assumes "reports_complete_without_images r"
  shows "poll_check r = Inr None"
proof -
  from assms obtain b g where d: "status_code r = 200" "json r = Inr b"
    "generations_by_pk b = Present g" "job_images g = None \<or> job_images g = Some []"
    by (auto simp: reports_complete_without_images_def
        split: sum.splits entry.splits option.splits list.splits)
  then have "get_default (job_images g) [] = []"
    by (auto simp: get_default_def)
  with d show ?thesis
    by (simp add: poll_check_def generations_of_def)
qed

text \<open>
  Claim C3, as amended. A status response that reports \<open>COMPLETE\<close> with no image does
  not end \<open>generate_image\<close>: when it is the \<open>k\<close>-th response and none before it reported
  \<open>COMPLETE\<close> with an image, the loop sleeps and goes on with the \<open>30 - k\<close> attempts that
  remain. The timed-out error is returned only when those run out.
\<close>

theorem complete_without_images_goes_on:
  assumes "net e (requests_made w) = Inr s" "status_code s = 200" "json s = Inr b"
    "sdGenerationJob b = Some (Some g)"
    "1 \<le> k" "k \<le> 30"
    "\<forall>i<k - 1. \<exists>r. net e (requests_made w + 1 + i) = Inr r \<and> well_formed_status r
        \<and> \<not> reports_complete_with_image r"
    "net e (requests_made w + k) = Inr rk" "reports_complete_without_images rk"
  shows "generate_image e p w =
    (case poll e g (30 - k)
            (w\<lparr>requests_made := requests_made w + 1 + k,
               trace := trace w
                 @ [ReplyText generating_text, Http (POST_generations (scratch_payload p))]
                 @ polls g k\<rparr>) of
       (Inl x, w2) \<Rightarrow> (Error (str_exn x), w2)
     | (Inr (Some u), w2) \<Rightarrow> (Success u, w2)
     | (Inr None, w2) \<Rightarrow> (Error timed_out_text, w2))"
proof -
  let ?w1 = "w\<lparr>requests_made := Suc (requests_made w),
            trace := trace w @ [ReplyText generating_text, Http (POST_generations (scratch_payload p))]\<rparr>"
  have pend: "\<forall>i<k. \<exists>r. net e (requests_made ?w1 + i) = Inr r \<and> poll_check r = Inr None"
  proof (intro allI impI)
    fix i assume i: "i < k"
    show "\<exists>r. net e (requests_made ?w1 + i) = Inr r \<and> poll_check r = Inr None"
    proof (cases "i < k - 1")
      case True
      with assms(7) obtain r where "net e (requests_made w + 1 + i) = Inr r" "well_formed_status r"
        "\<not> reports_complete_with_image r" by blast
      then show ?thesis by (auto dest: poll_check_pending)
    next
      case False
      with i have "Suc i = k" by arith
      then have "requests_made ?w1 + i = requests_made w + k" by simp
      with assms(8,9) show ?thesis by (auto dest: poll_check_no_images)
    qed
  qed
  from assms(6) have "poll e g 30 ?w1 = poll e g (k + (30 - k)) ?w1" by simp
  also have "\<dots> = poll e g (30 - k)
       (?w1\<lparr>requests_made := requests_made ?w1 + k, trace := trace ?w1 @ polls g k\<rparr>)"
    by (rule poll_pending [OF pend])
  finally show ?thesis
    by (simp add: generate_image_submitted [OF assms(1-4)])
qed

theorem complete_without_images_goes_on_witness:
  "generate_image
     (mock_env [Inr mock_submitted, Inr (mock_status ''COMPLETE'' []),
                Inr (mock_status ''COMPLETE'' [''http://img/1.png''])])
     ''a frog'' fresh_world =
     (Success ''http://img/1.png'',
      fresh_world\<lparr>requests_made := 3,
        trace := [ReplyText generating_text, Http (POST_generations (scratch_payload ''a frog'')),
                  Http (GET_generations ''job-1''), AsyncSleep 2,
                  Http (GET_generations ''job-1'')]\<rparr>)"
  using complete_without_images_goes_on [where w = fresh_world and s = mock_submitted
      and g = "''job-1''" and k = 1 and rk = "mock_status ''COMPLETE'' []" and p = "''a frog''"
      and e = "mock_env [Inr mock_submitted, Inr (mock_status ''COMPLETE'' []),
                Inr (mock_status ''COMPLETE'' [''http://img/1.png''])]"]
  by (simp add: mock_env_def scripted_def mock_submitted_def mock_status_def fresh_world_def
      empty_body_def reports_complete_without_images_def polls_def
      poll.simps(2) [of _ _ 28, simplified] http_def poll_check_def generations_of_def get_default_def subscript_def)

text \<open>
  The claim as stated fails: after a first response that reports \<open>COMPLETE\<close> with no
  image, a second one with an image makes \<open>generate_image\<close> return success.
\<close>

theorem complete_without_images_counterexample:
  "fst (generate_image
     (mock_env [Inr mock_submitted, Inr (mock_status ''COMPLETE'' []),
                Inr (mock_status ''COMPLETE'' [''http://img/1.png''])])
     ''a frog'' fresh_world) = Success ''http://img/1.png''
   \<and> fst (generate_image
     (mock_env [Inr mock_submitted, Inr (mock_status ''COMPLETE'' []),
                Inr (mock_status ''COMPLETE'' [''http://img/1.png''])])
     ''a frog'' fresh_world) \<noteq> Error timed_out_text"
proof -
  have sub: "generate_image
     (mock_env [Inr mock_submitted, Inr (mock_status ''COMPLETE'' []),
                Inr (mock_status ''COMPLETE'' [''http://img/1.png''])])
     ''a frog'' fresh_world =
    (case poll (mock_env [Inr mock_submitted, Inr (mock_status ''COMPLETE'' []),
                Inr (mock_status ''COMPLETE'' [''http://img/1.png''])]) ''job-1'' 30
            (fresh_world\<lparr>requests_made := Suc (requests_made fresh_world),
               trace := trace fresh_world
                 @ [ReplyText generating_text, Http (POST_generations (scratch_payload ''a frog''))]\<rparr>) of
       (Inl x, w2) \<Rightarrow> (Error (str_exn x), w2)
     | (Inr (Some u), w2) \<Rightarrow> (Success u, w2)
     | (Inr None, w2) \<Rightarrow> (Error timed_out_text, w2))"
    by (rule generate_image_submitted [where s = mock_submitted
          and b = "empty_body\<lparr>sdGenerationJob := Some (Some ''job-1'')\<rparr>"])
      (simp_all add: mock_env_def scripted_def mock_submitted_def fresh_world_def)
  show ?thesis
    unfolding sub
    by (simp add: poll.simps(2) [of _ _ 29, simplified] poll.simps(2) [of _ _ 28, simplified]
        mock_env_def scripted_def mock_status_def fresh_world_def empty_body_def
        http_def poll_check_def generations_of_def get_default_def subscript_def async_sleep_def)
qed

lemma upload_reference_done:
  assumes "net e (requests_made w) = Inr slot" "status_code slot = 200" "json slot = Inr bslot"
    "uploadInitImage bslot = Some up" "up_fields up = Some (Inr form)" "up_url up = Some url"
    "up_id up = Some image_id"
    "net e (requests_made w + 1) = Inr img" "status_code img = 200"
    "net e (requests_made w + 2) = Inr ack"
  shows "upload_reference e image_url w =
    ((if status_code ack \<noteq> 204 then Inl (Exception ''Failed to upload to S3'') else Inr image_id),
     w\<lparr>requests_made := requests_made w + 3,
       trace := trace w @ [Http (POST_init_image ''jpg''), Http (GET_url image_url),
                 Http (POST_upload url form (content img))]\<rparr>)"
  using assms
  by (simp add: upload_reference_def upload_data_of_def subscript_def http_def)

text \<open>
  Claim C4. When the slot request and the download succeed and the direct upload is
  answered with a status other than 204, \<open>generate_image_with_reference\<close> returns the
  upload error, and its last request is the upload: no generation is submitted.
\<close>

theorem upload_refused:
  assumes "net e (requests_made w) = Inr slot" "status_code slot = 200" "json slot = Inr bslot"
    "uploadInitImage bslot = Some up" "up_fields up = Some (Inr form)" "up_url up = Some url"
    "up_id up = Some image_id"
    "net e (requests_made w + 1) = Inr img" "status_code img = 200"
    "net e (requests_made w + 2) = Inr ack" "status_code ack \<noteq> 204"
  shows "generate_image_with_reference e p image_url w =
      (Error ''Failed to upload to S3'',
       w\<lparr>requests_made := requests_made w + 3,
         trace := trace w @ [ReplyText processing_reference_text, Http (POST_init_image ''jpg''),
                   Http (GET_url image_url), Http (POST_upload url form (content img))]\<rparr>)
    \<and> filter is_submission (trace (snd (generate_image_with_reference e p image_url w)))
        = filter is_submission (trace w)"
proof -
  let ?w0 = "reply_text processing_reference_text w"
  have "upload_reference e image_url ?w0 =
    ((if status_code ack \<noteq> 204 then Inl (Exception ''Failed to upload to S3'') else Inr image_id),
     ?w0\<lparr>requests_made := requests_made ?w0 + 3,
       trace := trace ?w0 @ [Http (POST_init_image ''jpg''), Http (GET_url image_url),
                 Http (POST_upload url form (content img))]\<rparr>)"
    using assms by (intro upload_reference_done) (simp_all add: reply_text_def)
  then have "generate_image_with_reference e p image_url w =
      (Error ''Failed to upload to S3'',
       w\<lparr>requests_made := requests_made w + 3,
         trace := trace w @ [ReplyText processing_reference_text, Http (POST_init_image ''jpg''),
                   Http (GET_url image_url), Http (POST_upload url form (content img))]\<rparr>)"
    using assms(11)
    by (simp add: generate_image_with_reference_def generate_image_with_reference_try_def
        reply_text_def)
  then show ?thesis by simp
qed

theorem upload_refused_witness:
  "generate_image_with_reference
     (mock_env [Inr mock_upload_slot, Inr (mock_plain 200 ''JPEG''), Inr (mock_plain 403 [])])
     ''a frog'' ''https://files/photo.jpg'' fresh_world =
     (Error ''Failed to upload to S3'',
      fresh_world\<lparr>requests_made := 3, trace := mock_uploaded_trace ''https://files/photo.jpg''\<rparr>)
   \<and> filter is_submission (mock_uploaded_trace ''https://files/photo.jpg'') = []"
  using upload_refused [where w = fresh_world and slot = mock_upload_slot
      and bslot = "empty_body\<lparr>uploadInitImage :=
       Some \<lparr>up_fields = Some (Inr [(''key'', ''uploads/img-1.jpg'')]),
         up_url = Some ''https://bucket/upload'', up_id = Some ''img-1''\<rparr>\<rparr>"
      and up = "\<lparr>up_fields = Some (Inr [(''key'', ''uploads/img-1.jpg'')]),
         up_url = Some ''https://bucket/upload'', up_id = Some ''img-1''\<rparr>"
      and form = "[(''key'', ''uploads/img-1.jpg'')]" and url = "''https://bucket/upload''"
      and image_id = "''img-1''" and img = "mock_plain 200 ''JPEG''" and ack = "mock_plain 403 []"
      and p = "''a frog''" and image_url = "''https://files/photo.jpg''"
      and e = "mock_env [Inr mock_upload_slot, Inr (mock_plain 200 ''JPEG''), Inr (mock_plain 403 [])]"]
  by (simp add: mock_env_def scripted_def mock_upload_slot_def mock_plain_def fresh_world_def
      mock_uploaded_trace_def)

lemma reference_submitted:
  assumes "net e (requests_made w) = Inr slot" "status_code slot = 200" "json slot = Inr bslot"
    "uploadInitImage bslot = Some up" "up_fields up = Some (Inr form)" "up_url up = Some url"
    "up_id up = Some image_id"
    "net e (requests_made w + 1) = Inr img" "status_code img = 200"
    "net e (requests_made w + 2) = Inr ack" "status_code ack = 204"
    "net e (requests_made w + 3) = Inr sub" "status_code sub = 200" "json sub = Inr bsub"
    "sdGenerationJob bsub = Some (Some g)"
  shows "generate_image_with_reference e p image_url w =
    ((case net e (requests_made w + 4) of
        Inl x \<Rightarrow> Error (str_exn x)
      | Inr r \<Rightarrow> (case reference_check r of Inl x \<Rightarrow> Error (str_exn x) | Inr res \<Rightarrow> res)),
     w\<lparr>requests_made := requests_made w + 5,
       trace := trace w @ [ReplyText processing_reference_text, Http (POST_init_image ''jpg''),
                 Http (GET_url image_url), Http (POST_upload url form (content img)),
                 Http (POST_generations (reference_payload p image_id)),
                 TimeSleep 20, Http (GET_generations g)]\<rparr>)"
proof -
  let ?w0 = "reply_text processing_reference_text w"
  have up: "upload_reference e image_url ?w0 =
    (Inr image_id,
     ?w0\<lparr>requests_made := requests_made ?w0 + 3,
       trace := trace ?w0 @ [Http (POST_init_image ''jpg''), Http (GET_url image_url),
                 Http (POST_upload url form (content img))]\<rparr>)"
    using assms(11) upload_reference_done [of e ?w0 slot bslot up form url image_id img ack image_url]
      assms(1-10)
    by (simp add: reply_text_def)
  show ?thesis
    unfolding generate_image_with_reference_def generate_image_with_reference_try_def up
    using assms(12-15)
    by (auto simp: submit_reference_def fetch_reference_result_def generation_id_of_def
        subscript_def http_def time_sleep_def reply_text_def add.commute split: sum.splits)
qed

lemma reference_check_success:
  assumes "status_code r = 200" "has_images r" "first_image_url r = Some u"
  shows "reference_check r = Inr (Success u)"
proof -
  from has_imagesD [OF assms(2)]
  obtain b g i rest where d: "json r = Inr b" "generations_by_pk b = Present g"
    "job_images g = Some (i # rest)" by blast
  with assms(3) have "img_url i = Some u"
    by (simp add: first_image_url_def)
  with d assms(1) show ?thesis
    by (simp add: reference_check_def generations_of_def get_default_def subscript_def)
qed

lemma reference_check_failure:
  assumes "\<not> (status_code r = 200 \<and> has_images r)"
  shows "(\<exists>x. reference_check r = Inl x) \<or> (\<exists>m. reference_check r = Inr (Error m))"
proof (cases "status_code r = 200")
  case False
  then show ?thesis by (simp add: reference_check_def)
next
  case True
  with assms have no: "\<not> has_images r" by simp
  show ?thesis
  proof (cases "json r")
    case (Inl x)
    with True show ?thesis by (simp add: reference_check_def)
  next
    case (Inr b)
    show ?thesis
    proof (cases "generations_by_pk b")
      case Absent
      with True Inr show ?thesis
        by (simp add: reference_check_def generations_of_def empty_generation_def get_default_def)
    next
      case Null
      with True Inr show ?thesis
        by (simp add: reference_check_def generations_of_def)
    next
      case (Present g)
      with no Inr have "get_default (job_images g) [] = []"
        by (auto simp: has_images_def get_default_def split: option.splits list.splits)
      with True Inr Present show ?thesis
        by (simp add: reference_check_def generations_of_def)
    qed
  qed
qed

text \<open>
  Claim C5. After a submitted job \<open>generate_image_with_reference\<close> sleeps twenty seconds
  once and sends one status request, whatever the answer. It returns success with the
  first image's URL when that answer has status 200 and a non-empty image list, and an
  error in every other case.
\<close>

theorem reference_single_check:
  assumes "net e (requests_made w) = Inr slot" "status_code slot = 200" "json slot = Inr bslot"
    "uploadInitImage bslot = Some up" "up_fields up = Some (Inr form)" "up_url up = Some url"
    "up_id up = Some image_id"
    "net e (requests_made w + 1) = Inr img" "status_code img = 200"
    "net e (requests_made w + 2) = Inr ack" "status_code ack = 204"
    "net e (requests_made w + 3) = Inr sub" "status_code sub = 200" "json sub = Inr bsub"
    "sdGenerationJob bsub = Some (Some g)"
  shows "snd (generate_image_with_reference e p image_url w) =
      w\<lparr>requests_made := requests_made w + 5,
        trace := trace w @ [ReplyText processing_reference_text, Http (POST_init_image ''jpg''),
                  Http (GET_url image_url), Http (POST_upload url form (content img)),
                  Http (POST_generations (reference_payload p image_id)),
                  TimeSleep 20, Http (GET_generations g)]\<rparr>
    \<and> (net e (requests_made w + 4) = Inr chk \<and> status_code chk = 200 \<and> has_images chk
         \<and> first_image_url chk = Some u
        \<longrightarrow> fst (generate_image_with_reference e p image_url w) = Success u)
    \<and> ((\<forall>r. net e (requests_made w + 4) = Inr r \<longrightarrow> \<not> (status_code r = 200 \<and> has_images r))
        \<longrightarrow> (\<exists>m. fst (generate_image_with_reference e p image_url w) = Error m))"
proof (intro conjI impI)
  note eq = reference_submitted [OF assms, of p image_url]
  show "snd (generate_image_with_reference e p image_url w) =
      w\<lparr>requests_made := requests_made w + 5,
        trace := trace w @ [ReplyText processing_reference_text, Http (POST_init_image ''jpg''),
                  Http (GET_url image_url), Http (POST_upload url form (content img)),
                  Http (POST_generations (reference_payload p image_id)),
                  TimeSleep 20, Http (GET_generations g)]\<rparr>"
    by (simp add: eq)
  show "fst (generate_image_with_reference e p image_url w) = Success u"
    if "net e (requests_made w + 4) = Inr chk \<and> status_code chk = 200 \<and> has_images chk
         \<and> first_image_url chk = Some u"
    using that by (simp add: eq reference_check_success)
  show "\<exists>m. fst (generate_image_with_reference e p image_url w) = Error m"
    if h: "\<forall>r. net e (requests_made w + 4) = Inr r \<longrightarrow> \<not> (status_code r = 200 \<and> has_images r)"
  proof (cases "net e (requests_made w + 4)")
    case (Inl x)
    then show ?thesis by (simp add: eq)
  next
    case (Inr r)
    with h have "\<not> (status_code r = 200 \<and> has_images r)" by blast
    from reference_check_failure [OF this] Inr show ?thesis
      by (auto simp: eq)
  qed
qed


theorem reference_single_check_witness:
  "fst (generate_image_with_reference
     (mock_env [Inr mock_upload_slot, Inr (mock_plain 200 ''JPEG''), Inr (mock_plain 204 []),
                Inr mock_submitted, Inr (mock_status ''COMPLETE'' [''http://img/1.png''])])
     ''a frog'' ''https://files/photo.jpg'' fresh_world) = Success ''http://img/1.png''
   \<and> trace (snd (generate_image_with_reference
     (mock_env [Inr mock_upload_slot, Inr (mock_plain 200 ''JPEG''), Inr (mock_plain 204 []),
                Inr mock_submitted, Inr (mock_status ''COMPLETE'' [''http://img/1.png''])])
     ''a frog'' ''https://files/photo.jpg'' fresh_world))
     = mock_uploaded_trace ''https://files/photo.jpg''
       @ [Http (POST_generations (reference_payload ''a frog'' ''img-1'')), TimeSleep 20,
          Http (GET_generations ''job-1'')]
   \<and> (\<exists>m. fst (generate_image_with_reference
     (mock_env [Inr mock_upload_slot, Inr (mock_plain 200 ''JPEG''), Inr (mock_plain 204 []),
                Inr mock_submitted, Inr (mock_status ''COMPLETE'' [])])
     ''a frog'' ''https://files/photo.jpg'' fresh_world) = Error m)"
proof -
  note inst = reference_single_check [where w = fresh_world and slot = mock_upload_slot
      and bslot = "empty_body\<lparr>uploadInitImage :=
       Some \<lparr>up_fields = Some (Inr [(''key'', ''uploads/img-1.jpg'')]),
         up_url = Some ''https://bucket/upload'', up_id = Some ''img-1''\<rparr>\<rparr>"
      and up = "\<lparr>up_fields = Some (Inr [(''key'', ''uploads/img-1.jpg'')]),
         up_url = Some ''https://bucket/upload'', up_id = Some ''img-1''\<rparr>"
      and form = "[(''key'', ''uploads/img-1.jpg'')]" and url = "''https://bucket/upload''"
      and image_id = "''img-1''" and img = "mock_plain 200 ''JPEG''" and ack = "mock_plain 204 []"
      and sub = mock_submitted and bsub = "empty_body\<lparr>sdGenerationJob := Some (Some ''job-1'')\<rparr>"
      and g = "''job-1''" and p = "''a frog''" and image_url = "''https://files/photo.jpg''"]
  have a: "fst (generate_image_with_reference
     (mock_env [Inr mock_upload_slot, Inr (mock_plain 200 ''JPEG''), Inr (mock_plain 204 []),
                Inr mock_submitted, Inr (mock_status ''COMPLETE'' [''http://img/1.png''])])
     ''a frog'' ''https://files/photo.jpg'' fresh_world) = Success ''http://img/1.png''
   \<and> trace (snd (generate_image_with_reference
     (mock_env [Inr mock_upload_slot, Inr (mock_plain 200 ''JPEG''), Inr (mock_plain 204 []),
                Inr mock_submitted, Inr (mock_status ''COMPLETE'' [''http://img/1.png''])])
     ''a frog'' ''https://files/photo.jpg'' fresh_world))
     = mock_uploaded_trace ''https://files/photo.jpg''
       @ [Http (POST_generations (reference_payload ''a frog'' ''img-1'')), TimeSleep 20,
          Http (GET_generations ''job-1'')]"
    using inst [where chk = "mock_status ''COMPLETE'' [''http://img/1.png'']"
        and u = "''http://img/1.png''"
        and e = "mock_env [Inr mock_upload_slot, Inr (mock_plain 200 ''JPEG''), Inr (mock_plain 204 []),
                Inr mock_submitted, Inr (mock_status ''COMPLETE'' [''http://img/1.png''])]"]
    by (simp add: mock_env_def scripted_def mock_upload_slot_def mock_plain_def fresh_world_def
        mock_uploaded_trace_def mock_submitted_def mock_status_def empty_body_def
        has_images_def first_image_url_def)
  have b: "\<exists>m. fst (generate_image_with_reference
     (mock_env [Inr mock_upload_slot, Inr (mock_plain 200 ''JPEG''), Inr (mock_plain 204 []),
                Inr mock_submitted, Inr (mock_status ''COMPLETE'' [])])
     ''a frog'' ''https://files/photo.jpg'' fresh_world) = Error m"
    using inst [where
        e = "mock_env [Inr mock_upload_slot, Inr (mock_plain 200 ''JPEG''), Inr (mock_plain 204 []),
                Inr mock_submitted, Inr (mock_status ''COMPLETE'' [])]"]
    by (simp add: mock_env_def scripted_def mock_upload_slot_def mock_plain_def fresh_world_def
        mock_submitted_def mock_status_def empty_body_def has_images_def)
  from a b show ?thesis by blast
qed

section \<open>The invariants of the conversation\<close>

lemma store_kept_refl [simp]: "store_kept w w"
  by (simp add: store_kept_def)

lemma store_kept_io [simp]:
  "store_kept w (reply_text t w)" "store_kept w (reply_photo ph c w)"
  "store_kept w (async_sleep n w)" "store_kept w (time_sleep n w)"
  "store_kept w (snd (http e r w))"
  by (simp_all add: store_kept_def reply_text_def reply_photo_def async_sleep_def time_sleep_def
      http_def)

lemma store_kept_trans: "store_kept w w1 \<Longrightarrow> store_kept w1 w2 \<Longrightarrow> store_kept w w2"
  by (simp add: store_kept_def)

lemma poll_store: "store_kept w (snd (poll e g n w))"
proof (induction n arbitrary: w)
  case 0
  show ?case by simp
next
  case (Suc n)
  have "store_kept w (async_sleep poll_interval (snd (http e (GET_generations g) w)))"
    by (simp add: store_kept_def async_sleep_def http_def)
  from store_kept_trans [OF this Suc.IH] show ?case
    by (auto simp: http_def store_kept_def split: sum.splits option.splits prod.splits)
qed

lemma generate_image_store: "store_kept w (snd (generate_image e p w))"
proof -
  let ?w1 = "snd (http e (POST_generations (scratch_payload p)) (reply_text generating_text w))"
  have a: "store_kept w ?w1"
    by (simp add: store_kept_def http_def reply_text_def)
  have b: "store_kept w (snd (poll e g max_attempts ?w1))" for g
    by (rule store_kept_trans [OF a poll_store])
  show ?thesis
    using a b
    by (auto simp: generate_image_def generate_image_try_def split: prod.splits sum.splits option.splits)
      (metis snd_conv)+
qed

lemma upload_reference_store: "store_kept w (snd (upload_reference e u w))"
  by (auto simp: upload_reference_def http_def store_kept_def split: prod.splits sum.splits)

lemma submit_reference_store: "store_kept w (snd (submit_reference e p i w))"
  by (auto simp: submit_reference_def http_def store_kept_def split: prod.splits sum.splits)

lemma fetch_reference_store: "store_kept w (snd (fetch_reference_result e g w))"
  by (auto simp: fetch_reference_result_def http_def time_sleep_def store_kept_def
      split: prod.splits sum.splits)

lemma generate_image_with_reference_store:
  "store_kept w (snd (generate_image_with_reference e p u w))"
proof -
  let ?w0 = "reply_text processing_reference_text w"
  have a: "store_kept w (snd (upload_reference e u ?w0))"
    by (rule store_kept_trans [OF _ upload_reference_store]) simp
  have b: "store_kept w (snd (submit_reference e p i (snd (upload_reference e u ?w0))))" for i
    by (rule store_kept_trans [OF a submit_reference_store])
  have c: "store_kept w (snd (fetch_reference_result e g
      (snd (submit_reference e p i (snd (upload_reference e u ?w0))))))" for i g
    by (rule store_kept_trans [OF b fetch_reference_store])
  show ?thesis
    using a b c
    by (auto simp: generate_image_with_reference_def generate_image_with_reference_try_def
        split: prod.splits sum.splits)
     (metis snd_conv)+
qed

lemma start_image_generation_call_store:
  "store_kept w (snd (start_image_generation_call e u w))"
  using generate_image_store generate_image_with_reference_store
  by (auto simp: start_image_generation_call_def Let_def split: option.splits sum.splits prod.splits)
    (metis snd_conv)+

lemma start_image_generation_store: "store_kept w (snd (start_image_generation e u w))"
  using start_image_generation_call_store [of w e u]
  by (auto simp: start_image_generation_def store_kept_def reply_text_def reply_photo_def
      split: prod.splits sum.splits gen_result.splits)

lemma start_image_generation_state: "fst (start_image_generation e u w) = ITERATING_IMAGE"
  by (auto simp: start_image_generation_def split: prod.splits sum.splits gen_result.splits)


lemma handle_initial_prompt_effect:
  "conversations (snd (handle_initial_prompt e u t w)) = conversations w \<and>
   (\<exists>s. user_data (snd (handle_initial_prompt e u t w)) = (user_data w)(u \<mapsto> s)
        \<and> original_prompt s = Some t \<and> final_prompt s = None) \<and>
   (fst (handle_initial_prompt e u t w) = INITIAL_PROMPT
      \<or> fst (handle_initial_prompt e u t w) = CHOOSING_PROMPT)"
  by (auto simp: handle_initial_prompt_def handle_initial_prompt_try_def http_def reply_text_def
      put_session_def session_of_def empty_session_def
      split: prod.splits sum.splits if_splits option.splits)

lemma returns_simps [simp]: "fst (returns r) = Inr (fst r)" "snd (returns r) = snd r"
  by (simp_all add: returns_def)












subsection \<open>What every handler leaves alone\<close>

lemma framed_refl [simp]: "framed u w w"
  by (simp add: framed_def)

lemma store_kept_framed: "store_kept w w1 \<Longrightarrow> framed u w w1"
  by (simp add: framed_def store_kept_def)

lemma framed_others: "framed u w w1 \<Longrightarrow> v \<noteq> u \<Longrightarrow> user_data w1 v = user_data w v"
  by (auto simp: framed_def)

lemma framed_original:
  "framed u w w1 \<Longrightarrow> has_original (user_data w u) \<Longrightarrow> has_original (user_data w1 u)"
  by (simp add: framed_def)

lemma framed_conversations: "framed u w w1 \<Longrightarrow> conversations w1 = conversations w"
  by (simp add: framed_def)

lemma framedI:
  assumes "conversations w1 = conversations w"
    "\<And>v. v \<noteq> u \<Longrightarrow> user_data w1 v = user_data w v"
    "has_original (user_data w u) \<Longrightarrow> has_original (user_data w1 u)"
  shows "framed u w w1"
  using assms by (auto simp: framed_def)

lemma framed_trans:
  assumes "framed u w w1" "framed u w1 w2"
  shows "framed u w w2"
proof (rule framedI)
  show "conversations w2 = conversations w"
    using assms by (simp add: framed_conversations)
  show "user_data w2 v = user_data w v" if "v \<noteq> u" for v
    using assms that by (simp add: framed_others)
  show "has_original (user_data w2 u)" if "has_original (user_data w u)"
    using assms that by (blast intro: framed_original)
qed

lemma framed_reply [simp]: "framed u w (reply_text t w)"
  by (simp add: store_kept_framed)

lemma framed_put:
  "original_prompt s \<noteq> None \<Longrightarrow> framed u w (reply_text t (put_session u s w))"
  by (simp add: framed_def reply_text_def put_session_def has_original_def)

lemma framed_initial_prompt: "framed u w (snd (handle_initial_prompt e u t w))"
proof -
  from handle_initial_prompt_effect [of e u t w]
  obtain s where "conversations (snd (handle_initial_prompt e u t w)) = conversations w"
    "user_data (snd (handle_initial_prompt e u t w)) = (user_data w)(u \<mapsto> s)"
    "original_prompt s = Some t"
    by auto
  then show ?thesis
    by (simp add: framed_def has_original_def)
qed

lemma original_after_initial_prompt:
  "has_original (user_data (snd (handle_initial_prompt e u t w)) u)"
proof -
  from handle_initial_prompt_effect [of e u t w]
  obtain s where "user_data (snd (handle_initial_prompt e u t w)) = (user_data w)(u \<mapsto> s)"
    "original_prompt s = Some t"
    by auto
  then show ?thesis by (simp add: has_original_def)
qed

lemma framed_start_image_generation: "framed u w (snd (start_image_generation e u w))"
  by (rule store_kept_framed [OF start_image_generation_store])

lemma framed_prompt_choice: "framed u w (snd (handle_prompt_choice e u t w))"
proof -
  consider "t \<notin> set [''1'', ''2'', ''3'']" | "t = ''2''" | "t = ''1'' \<or> t = ''3''"
    by auto
  then show ?thesis
  proof cases
    case 1
    then show ?thesis by (simp add: handle_prompt_choice_def)
  next
    case 2
    show ?thesis
    proof (cases "user_data w u")
      case None
      with 2 show ?thesis by (simp add: handle_prompt_choice_def session_of_def)
    next
      case (Some s)
      show ?thesis
      proof (cases "original_prompt s")
        case None
        with 2 Some show ?thesis
          by (simp add: handle_prompt_choice_def session_of_def subscript_def)
      next
        case (Some y)
        let ?w0 = "w\<lparr>original_text := (original_text w)(u \<mapsto> y)\<rparr>"
        have a: "framed u w ?w0" by (simp add: framed_def)
        have "framed u ?w0 (snd (handle_initial_prompt e u y ?w0))"
          by (rule framed_initial_prompt)
        from framed_trans [OF a this] a 2 Some \<open>user_data w u = Some s\<close> show ?thesis
          by (simp add: handle_prompt_choice_def session_of_def subscript_def)
      qed
    qed
  next
    case 3
    show ?thesis
    proof (cases "user_data w u")
      case None
      with 3 show ?thesis by (auto simp: handle_prompt_choice_def session_of_def)
    next
      case (Some s)
      have "framed u w (reply_text x (put_session u (s\<lparr>final_prompt := Some y\<rparr>) w))" for x y
        using Some by (simp add: framed_def reply_text_def put_session_def has_original_def)
      with 3 Some show ?thesis
        by (auto simp: handle_prompt_choice_def session_of_def subscript_def split: option.splits)
    qed
  qed
qed

lemma framed_reference_choice: "framed u w (snd (handle_reference_choice e u t w))"
  using framed_start_image_generation [of u w e]
  by (simp add: handle_reference_choice_def)

lemma framed_reference_image: "framed u w (snd (handle_reference_image e u ph w))"
proof (cases "user_data w u")
  case None
  then show ?thesis by (simp add: handle_reference_image_def)
next
  case (Some s)
  have gen: "framed u w (snd (start_image_generation e u
      (put_session u (s\<lparr>reference_image := Some \<lparr>file_id = last ph, file_path = path\<rparr>\<rparr>) w)))" for path
  proof (rule framed_trans [OF _ framed_start_image_generation])
    show "framed u w (put_session u (s\<lparr>reference_image := Some \<lparr>file_id = last ph, file_path = path\<rparr>\<rparr>) w)"
      using Some by (simp add: framed_def put_session_def has_original_def)
  qed
  with Some show ?thesis
    by (simp add: handle_reference_image_def split: sum.splits)
qed

lemma framed_image_iteration: "framed u w (snd (handle_image_iteration e u t w))"
proof (cases "user_data w u")
  case None
  with framed_start_image_generation [of u w e] show ?thesis
    by (simp add: handle_image_iteration_def session_of_def)
next
  case (Some s)
  have "framed u w (reply_text x (put_session u (empty_session\<lparr>original_prompt := Some y\<rparr>) w))" for x y
    by (rule framed_put) simp
  with Some framed_start_image_generation [of u w e] show ?thesis
    by (simp add: handle_image_iteration_def session_of_def)
qed

lemma framed_dispatch:
  assumes "dispatch e st u m w = Some res"
  shows "framed u w (snd res)"
proof (cases st)
  case INITIAL_PROMPT
  with assms show ?thesis by (cases m) (auto simp: framed_initial_prompt)
next
  case CHOOSING_PROMPT
  with assms show ?thesis by (cases m) (auto simp: framed_prompt_choice)
next
  case REFERENCE_CHOICE
  with assms show ?thesis by (cases m) (auto simp: framed_reference_choice)
next
  case AWAITING_REFERENCE
  with assms show ?thesis by (cases m) (auto simp: framed_reference_image split: if_splits)
next
  case GENERATING_IMAGE
  with assms show ?thesis by (cases m) (auto simp: framed_start_image_generation)
next
  case ITERATING_IMAGE
  with assms show ?thesis by (cases m) (auto simp: framed_image_iteration)
qed

lemma dispatch_backed:
  assumes "state_backed st (user_data w u)" "dispatch e st u m w = Some res"
  shows "has_original (user_data (snd res) u)"
proof (cases "st = INITIAL_PROMPT")
  case True
  with assms(2) show ?thesis
    by (cases m) (auto simp: original_after_initial_prompt)
next
  case False
  with assms(1) have "has_original (user_data w u)" by (simp add: state_backed_def)
  with framed_dispatch [OF assms(2)] show ?thesis by (simp add: framed_def)
qed

subsection \<open>Every conversation is backed by a session\<close>

lemma consistent_at:
  "consistent w \<Longrightarrow> conversations w (c, u) = Some st \<Longrightarrow> state_backed st (user_data w u)"
  by (auto simp: consistent_def split: option.splits dest: spec [of _ c])

lemma consistentI:
  assumes "\<And>c u st. conversations w (c, u) = Some st \<Longrightarrow> state_backed st (user_data w u)"
  shows "consistent w"
  using assms by (auto simp: consistent_def split: option.splits)

lemma consistent_framed:
  assumes "consistent w" "framed u w w1"
  shows "consistent w1"
proof (rule consistentI)
  fix c v st assume "conversations w1 (c, v) = Some st"
  with assms(2) have st: "conversations w (c, v) = Some st" by (simp add: framed_conversations)
  from consistent_at [OF assms(1) st] have b: "state_backed st (user_data w v)" .
  show "state_backed st (user_data w1 v)"
  proof (cases "v = u")
    case True
    with b framed_original [OF assms(2)] show ?thesis
      by (auto simp: state_backed_def split: if_splits)
  next
    case False
    with framed_others [OF assms(2)] have "user_data w1 v = user_data w v" by simp
    with b show ?thesis by simp
  qed
qed

lemma consistent_enter:
  assumes "consistent w" "state_backed st (user_data w u)"
  shows "consistent (w\<lparr>conversations := (conversations w)((c, u) \<mapsto> st)\<rparr>)"
proof (rule consistentI)
  fix d v st'
  assume "conversations (w\<lparr>conversations := (conversations w)((c, u) \<mapsto> st)\<rparr>) (d, v) = Some st'"
  then have "(d = c \<and> v = u \<and> st' = st) \<or> conversations w (d, v) = Some st'"
    by (auto split: if_splits)
  with assms consistent_at [OF assms(1), of d v st']
  show "state_backed st' (user_data (w\<lparr>conversations := (conversations w)((c, u) \<mapsto> st)\<rparr>) v)"
    by auto
qed

lemma consistent_leave:
  assumes "consistent w"
  shows "consistent (w\<lparr>conversations := (conversations w)(k := None)\<rparr>)"
proof (rule consistentI)
  fix d v st'
  assume "conversations (w\<lparr>conversations := (conversations w)(k := None)\<rparr>) (d, v) = Some st'"
  then have "conversations w (d, v) = Some st'" by (auto split: if_splits)
  from consistent_at [OF assms this]
  show "state_backed st' (user_data (w\<lparr>conversations := (conversations w)(k := None)\<rparr>) v)"
    by simp
qed

lemma consistent_process_update:
  assumes "consistent w"
  shows "consistent (process_update e upd w)"
proof -
  obtain c u where k: "conversation_key upd = (c, u)" "effective_user upd = u"
    by (simp add: conversation_key_def)
  show ?thesis
  proof (cases "conversations w (c, u)")
    case None
    have "consistent (reply_text t w)" for t
      by (rule consistent_framed [OF assms framed_reply])
    then have "consistent ((reply_text t w)\<lparr>conversations :=
        (conversations (reply_text t w))((c, u) \<mapsto> INITIAL_PROMPT)\<rparr>)" for t
      by (rule consistent_enter) (simp add: state_backed_def)
    with None k assms show ?thesis
      by (simp add: process_update_def start_def)
  next
    case (Some st)
    from consistent_at [OF assms Some] have b: "state_backed st (user_data w u)" .
    show ?thesis
    proof (cases "dispatch e st u (message upd) w")
      case None
      have "consistent (reply_text t w)" for t
        by (rule consistent_framed [OF assms framed_reply])
      then have "consistent ((reply_text t w)\<lparr>conversations :=
          (conversations (reply_text t w))((c, u) := None)\<rparr>)" for t
        by (rule consistent_leave)
      with None Some k assms show ?thesis
        by (simp add: process_update_def cancel_def reply_text_def)
    next
      case (Some res)
      obtain r w1 where res: "res = (r, w1)" by (cases res)
      from framed_dispatch [OF Some] res have f: "framed u w w1" by simp
      from consistent_framed [OF assms f] have c1: "consistent w1" .
      from dispatch_backed [OF b Some] res have o: "has_original (user_data w1 u)" by simp
      show ?thesis
      proof (cases r)
        case (Inl x)
        with c1 res Some \<open>conversations w (c, u) = Some st\<close> k show ?thesis
          by (simp add: process_update_def)
      next
        case (Inr st')
        from o have "state_backed st' (user_data w1 u)" by (simp add: state_backed_def)
        then have "consistent (w1\<lparr>conversations := (conversations w1)((c, u) \<mapsto> st')\<rparr>)"
          by (rule consistent_enter [OF c1])
        with Inr res Some \<open>conversations w (c, u) = Some st\<close> k
        show ?thesis
          by (simp add: process_update_def)
      qed
    qed
  qed
qed

lemma reachable_consistent: "reachable w \<Longrightarrow> consistent w"
proof (induction rule: reachable.induct)
  case fresh
  show ?case by (simp add: consistent_def fresh_world_def)
next
  case (step w e upd)
  then show ?case by (simp add: consistent_process_update)
qed

subsection \<open>A user who stays in one chat\<close>





section \<open>Runs of the conversation\<close>

lemma reachable_run: "reachable w \<Longrightarrow> reachable (run e upds w)"
  by (induction upds arbitrary: w) (auto intro: reachable.step)

lemma handle_initial_prompt_improved:
  assumes "net e (requests_made w) = Inr r" "status_code r = 200" "json r = Inr b"
    "promptGeneration b = Some (Some enh)"
  shows "handle_initial_prompt e u t w =
    (CHOOSING_PROMPT,
     w\<lparr>user_data := (user_data w)(u \<mapsto> \<lparr>original_prompt = Some t, enhanced_prompt = Some enh,
          final_prompt = None, reference_image = None, generated_images = None\<rparr>),
       requests_made := Suc (requests_made w),
       trace := trace w @ [Http (POST_prompt_improve t), ReplyText (enhanced_text t enh)]\<rparr>)"
  using assms
  by (simp add: handle_initial_prompt_def handle_initial_prompt_try_def http_def put_session_def
      enhanced_prompt_of_def subscript_def session_of_def reply_text_def empty_session_def)

lemma generate_image_first_poll:
  assumes "net e (requests_made w) = Inr s" "status_code s = 200" "json s = Inr b"
    "sdGenerationJob b = Some (Some g)"
    "net e (Suc (requests_made w)) = Inr r" "reports_complete_with_image r"
    "first_image_url r = Some url"
  shows "generate_image e p w =
    (Success url,
     w\<lparr>requests_made := Suc (Suc (requests_made w)),
       trace := trace w @ [ReplyText generating_text, Http (POST_generations (scratch_payload p)),
                 Http (GET_generations g)]\<rparr>)"
  using assms(5) poll_check_complete [OF assms(6,7)]
  by (simp add: generate_image_submitted [OF assms(1-4)] poll.simps(2) [of _ _ 29, simplified]
      http_def)

lemma run_to_reference_choice:
  assumes "net e 0 = Inr r" "status_code r = 200" "json r = Inr b"
    "promptGeneration b = Some (Some enh)"
  shows "run e [says c u (Command ''start''), says c u (Text t), says c u (Text ''1'')] fresh_world =
    \<lparr>user_data = [u \<mapsto> chosen_session t enh], original_text = Map.empty,
      conversations = [(c, u) \<mapsto> REFERENCE_CHOICE], requests_made = 1,
      trace = [ReplyText welcome_message, Http (POST_prompt_improve t),
               ReplyText (enhanced_text t enh), ReplyText reference_question_text]\<rparr>"
proof -
  let ?w1 = "process_update e (says c u (Command ''start'')) fresh_world"
  have w1: "?w1 = fresh_world\<lparr>conversations := [(c, u) \<mapsto> INITIAL_PROMPT],
      trace := [ReplyText welcome_message]\<rparr>"
    by (simp add: process_update_def conversation_key_def says_def fresh_world_def start_def reply_text_def)
  let ?w2 = "process_update e (says c u (Text t)) ?w1"
  have w2: "?w2 = fresh_world\<lparr>
      user_data := [u \<mapsto> \<lparr>original_prompt = Some t, enhanced_prompt = Some enh,
          final_prompt = None, reference_image = None, generated_images = None\<rparr>],
      conversations := [(c, u) \<mapsto> CHOOSING_PROMPT], requests_made := 1,
      trace := [ReplyText welcome_message, Http (POST_prompt_improve t),
               ReplyText (enhanced_text t enh)]\<rparr>"
    unfolding w1 using assms
    by (simp add: process_update_def conversation_key_def says_def returns_def fresh_world_def
        handle_initial_prompt_improved [where r = r and b = b and enh = enh])
  have w3: "process_update e (says c u (Text ''1'')) ?w2 =
    \<lparr>user_data = [u \<mapsto> chosen_session t enh], original_text = Map.empty,
      conversations = [(c, u) \<mapsto> REFERENCE_CHOICE], requests_made = 1,
      trace = [ReplyText welcome_message, Http (POST_prompt_improve t),
               ReplyText (enhanced_text t enh), ReplyText reference_question_text]\<rparr>"
    unfolding w2
    by (simp add: process_update_def conversation_key_def says_def fresh_world_def handle_prompt_choice_def
        session_of_def subscript_def put_session_def reply_text_def chosen_session_def)
  then show ?thesis by simp
qed

lemma run_append: "run e (upds @ upds') w = run e upds' (run e upds w)"
  by (induction upds arbitrary: w) simp_all

lemma start_image_generation_scratch_success:
  assumes "user_data w u = Some ss" "reference_image ss = None" "final_prompt ss = Some p"
    "generate_image e p w = (Success url, w1)"
  shows "start_image_generation e u w = (ITERATING_IMAGE, reply_photo url generated_caption w1)"
  using assms
  by (simp add: start_image_generation_def start_image_generation_call_def get_default_def
      subscript_def)

lemma process_update_no_reference:
  assumes "conversations w (c, u) = Some REFERENCE_CHOICE"
  shows "process_update e (says c u (Text ''2'')) w =
    (snd (start_image_generation e u w))
      \<lparr>conversations := (conversations (snd (start_image_generation e u w)))
         ((c, u) \<mapsto> fst (start_image_generation e u w))\<rparr>"
  using assms
  by (simp add: process_update_def conversation_key_def says_def returns_def handle_reference_choice_def)

lemma run_to_iterating:
  assumes "net e 0 = Inr r" "status_code r = 200" "json r = Inr b"
    "promptGeneration b = Some (Some enh)"
    "net e 1 = Inr s" "status_code s = 200" "json s = Inr bs" "sdGenerationJob bs = Some (Some g)"
    "net e 2 = Inr rc" "reports_complete_with_image rc" "first_image_url rc = Some url"
  shows "run e [says c u (Command ''start''), says c u (Text t), says c u (Text ''1''),
                says c u (Text ''2'')] fresh_world =
    \<lparr>user_data = [u \<mapsto> chosen_session t enh], original_text = Map.empty,
      conversations = [(c, u) \<mapsto> ITERATING_IMAGE], requests_made = 3,
      trace = [ReplyText welcome_message, Http (POST_prompt_improve t),
               ReplyText (enhanced_text t enh), ReplyText reference_question_text,
               ReplyText generating_text, Http (POST_generations (scratch_payload enh)),
               Http (GET_generations g), ReplyPhoto url generated_caption]\<rparr>"
proof -
  define w3 where "w3 = \<lparr>user_data = [u \<mapsto> chosen_session t enh], original_text = Map.empty,
      conversations = [(c, u) \<mapsto> REFERENCE_CHOICE], requests_made = 1,
      trace = [ReplyText welcome_message, Http (POST_prompt_improve t),
               ReplyText (enhanced_text t enh), ReplyText reference_question_text]\<rparr>"
  have gen: "generate_image e enh w3 =
    (Success url,
     w3\<lparr>requests_made := Suc (Suc (requests_made w3)),
       trace := trace w3 @ [ReplyText generating_text, Http (POST_generations (scratch_payload enh)),
                 Http (GET_generations g)]\<rparr>)"
    using assms(5-11)
    by (intro generate_image_first_poll [where s = s and b = bs and r = rc])
      (simp_all add: numeral_2_eq_2 w3_def)
  have sig: "start_image_generation e u w3 =
    (ITERATING_IMAGE, reply_photo url generated_caption
      (w3\<lparr>requests_made := Suc (Suc (requests_made w3)),
       trace := trace w3 @ [ReplyText generating_text, Http (POST_generations (scratch_payload enh)),
                 Http (GET_generations g)]\<rparr>))"
    by (rule start_image_generation_scratch_success [OF _ _ _ gen, where ss = "chosen_session t enh"])
      (simp_all add: w3_def chosen_session_def)
  have "run e ([says c u (Command ''start''), says c u (Text t), says c u (Text ''1'')]
                @ [says c u (Text ''2'')]) fresh_world = process_update e (says c u (Text ''2'')) w3"
    unfolding run_append run_to_reference_choice [OF assms(1-4)] w3_def by simp
  also have "\<dots> = (snd (start_image_generation e u w3))
      \<lparr>conversations := (conversations (snd (start_image_generation e u w3)))
         ((c, u) \<mapsto> fst (start_image_generation e u w3))\<rparr>"
    by (rule process_update_no_reference) (simp add: w3_def)
  also have "\<dots> = \<lparr>user_data = [u \<mapsto> chosen_session t enh], original_text = Map.empty,
      conversations = [(c, u) \<mapsto> ITERATING_IMAGE], requests_made = 3,
      trace = [ReplyText welcome_message, Http (POST_prompt_improve t),
               ReplyText (enhanced_text t enh), ReplyText reference_question_text,
               ReplyText generating_text, Http (POST_generations (scratch_payload enh)),
               Http (GET_generations g), ReplyPhoto url generated_caption]\<rparr>"
    unfolding sig by (simp add: w3_def reply_photo_def)
  finally show ?thesis by simp
qed


lemma scenario_reference_choice:
  "run scenario_env scenario_updates fresh_world =
    \<lparr>user_data = [1 \<mapsto> scenario_session], original_text = Map.empty,
      conversations = [(1, 1) \<mapsto> REFERENCE_CHOICE], requests_made = 1, trace = scenario_trace\<rparr>"
  unfolding scenario_updates_def scenario_session_def scenario_trace_def
  by (rule run_to_reference_choice
        [where r = "mock_improved ''a pixel-art frog astronaut, 8-bit palette''"
           and b = "empty_body\<lparr>promptGeneration :=
                      Some (Some ''a pixel-art frog astronaut, 8-bit palette'')\<rparr>"])
    (simp_all add: scenario_env_def mock_env_def scripted_def mock_improved_def)

lemma scenario_iterating:
  "run scenario_env (scenario_updates @ [says 1 1 (Text ''2'')]) fresh_world =
    \<lparr>user_data = [1 \<mapsto> scenario_session], original_text = Map.empty,
      conversations = [(1, 1) \<mapsto> ITERATING_IMAGE], requests_made = 3,
      trace = scenario_trace
        @ [ReplyText generating_text,
           Http (POST_generations (scratch_payload ''a pixel-art frog astronaut, 8-bit palette'')),
           Http (GET_generations ''job-1''), ReplyPhoto ''http://img/1.png'' generated_caption]\<rparr>"
proof -
  have "run scenario_env [says 1 1 (Command ''start''), says 1 1 (Text ''a pixel-art frog astronaut''),
                says 1 1 (Text ''1''), says 1 1 (Text ''2'')] fresh_world =
    \<lparr>user_data = [1 \<mapsto> chosen_session ''a pixel-art frog astronaut''
          ''a pixel-art frog astronaut, 8-bit palette''], original_text = Map.empty,
      conversations = [(1, 1) \<mapsto> ITERATING_IMAGE], requests_made = 3,
      trace = [ReplyText welcome_message, Http (POST_prompt_improve ''a pixel-art frog astronaut''),
               ReplyText (enhanced_text ''a pixel-art frog astronaut''
                  ''a pixel-art frog astronaut, 8-bit palette''),
               ReplyText reference_question_text,
               ReplyText generating_text,
               Http (POST_generations (scratch_payload ''a pixel-art frog astronaut, 8-bit palette'')),
               Http (GET_generations ''job-1''), ReplyPhoto ''http://img/1.png'' generated_caption]\<rparr>"
    by (rule run_to_iterating
        [where r = "mock_improved ''a pixel-art frog astronaut, 8-bit palette''"
           and b = "empty_body\<lparr>promptGeneration :=
                      Some (Some ''a pixel-art frog astronaut, 8-bit palette'')\<rparr>"
           and s = mock_submitted
           and bs = "empty_body\<lparr>sdGenerationJob := Some (Some ''job-1'')\<rparr>"
           and rc = "mock_status ''COMPLETE'' [''http://img/1.png'']"])
      (simp_all add: scenario_env_def mock_env_def scripted_def mock_improved_def
        mock_submitted_def mock_status_def reports_complete_with_image_def first_image_url_def
        empty_body_def)
  then show ?thesis
    by (simp add: scenario_updates_def scenario_session_def scenario_trace_def)
qed





section \<open>Properties of the handlers\<close>

text \<open>
  Claim C9. A photo that arrives in \<open>AWAITING_REFERENCE\<close> for a user whose session is
  absent or has no final prompt changes nothing in \<open>user_data\<close>, sends no request, replies
  that the prompt is lost and moves the conversation to \<open>INITIAL_PROMPT\<close>; no exception
  leaves the handler.
\<close>

theorem reference_image_without_prompt:
  assumes "conversations w (c, u) = Some AWAITING_REFERENCE" "ph \<noteq> []"
    "user_data w u = None \<or> (\<exists>s. user_data w u = Some s \<and> final_prompt s = None)"
  shows "handle_reference_image e u ph w = (Inr INITIAL_PROMPT, reply_text lost_prompt_text w)
    \<and> process_update e (says c u (Photo ph)) w =
        w\<lparr>conversations := (conversations w)((c, u) \<mapsto> INITIAL_PROMPT),
          trace := trace w @ [ReplyText lost_prompt_text]\<rparr>"
proof -
  from assms(3) have h: "handle_reference_image e u ph w =
      (Inr INITIAL_PROMPT, reply_text lost_prompt_text w)"
    by (auto simp: handle_reference_image_def)
  with assms(1,2) show ?thesis
    by (simp add: process_update_def conversation_key_def says_def reply_text_def)
qed

theorem reference_image_without_prompt_witness:
  "process_update scenario_env (says 1 1 (Photo [''small'', ''large'']))
     (fresh_world\<lparr>conversations := [(1, 1) \<mapsto> AWAITING_REFERENCE]\<rparr>) =
     fresh_world\<lparr>conversations := [(1, 1) \<mapsto> INITIAL_PROMPT], trace := [ReplyText lost_prompt_text]\<rparr>
   \<and> process_update scenario_env (says 1 1 (Photo [''small'', ''large'']))
     (fresh_world\<lparr>user_data := [1 \<mapsto> empty_session\<lparr>original_prompt := Some ''a frog''\<rparr>],
        conversations := [(1, 1) \<mapsto> AWAITING_REFERENCE]\<rparr>) =
     fresh_world\<lparr>user_data := [1 \<mapsto> empty_session\<lparr>original_prompt := Some ''a frog''\<rparr>],
        conversations := [(1, 1) \<mapsto> INITIAL_PROMPT], trace := [ReplyText lost_prompt_text]\<rparr>"
  using reference_image_without_prompt [where e = scenario_env and c = 1 and u = 1
      and ph = "[''small'', ''large'']"
      and w = "fresh_world\<lparr>conversations := [(1, 1) \<mapsto> AWAITING_REFERENCE]\<rparr>"]
    reference_image_without_prompt [where e = scenario_env and c = 1 and u = 1
      and ph = "[''small'', ''large'']"
      and w = "fresh_world\<lparr>user_data := [1 \<mapsto> empty_session\<lparr>original_prompt := Some ''a frog''\<rparr>],
        conversations := [(1, 1) \<mapsto> AWAITING_REFERENCE]\<rparr>"]
  by (simp add: fresh_world_def empty_session_def)

text \<open>
  Claim C7, as amended. In \<open>CHOOSING_PROMPT\<close>, \<open>REFERENCE_CHOICE\<close> and \<open>ITERATING_IMAGE\<close> a
  text outside the choices of the state changes nothing but the trace: the state and
  every session stay, and the one thing sent is the reminder of that state, a fixed text
  that lists the same choices.
\<close>

theorem invalid_choice_reminder:
  assumes "conversations w (c, u) = Some st"
  shows "(st = CHOOSING_PROMPT \<and> t \<notin> {''1'', ''2'', ''3''} \<longrightarrow>
            process_update e (says c u (Text t)) w =
              w\<lparr>trace := trace w @ [ReplyText prompt_choice_again_text]\<rparr>)
       \<and> (st = REFERENCE_CHOICE \<and> t \<notin> {''1'', ''2''} \<longrightarrow>
            process_update e (says c u (Text t)) w =
              w\<lparr>trace := trace w @ [ReplyText reference_choice_again_text]\<rparr>)
       \<and> (st = ITERATING_IMAGE \<and> t \<notin> {''1'', ''2''} \<longrightarrow>
            process_update e (says c u (Text t)) w =
              w\<lparr>trace := trace w @ [ReplyText iteration_again_text]\<rparr>)"
proof -
  have same: "(conversations w)((c, u) \<mapsto> st) = conversations w"
    using assms by (rule map_upd_triv)
  show ?thesis
    using assms same
    by (auto simp: process_update_def conversation_key_def says_def returns_def handle_prompt_choice_def
        handle_reference_choice_def handle_image_iteration_def reply_text_def)
qed

theorem invalid_choice_reminder_witness:
  "process_update scenario_env (says 1 1 (Text ''4'')) (prompted_world CHOOSING_PROMPT) =
     (prompted_world CHOOSING_PROMPT)\<lparr>trace := [ReplyText prompt_choice_again_text]\<rparr>
   \<and> process_update scenario_env (says 1 1 (Text ''yes'')) (prompted_world REFERENCE_CHOICE) =
     (prompted_world REFERENCE_CHOICE)\<lparr>trace := [ReplyText reference_choice_again_text]\<rparr>
   \<and> process_update scenario_env (says 1 1 (Text ''3'')) (prompted_world ITERATING_IMAGE) =
     (prompted_world ITERATING_IMAGE)\<lparr>trace := [ReplyText iteration_again_text]\<rparr>"
  using invalid_choice_reminder [where e = scenario_env and c = 1 and u = 1 and t = "''4''"
      and st = CHOOSING_PROMPT and w = "prompted_world CHOOSING_PROMPT"]
    invalid_choice_reminder [where e = scenario_env and c = 1 and u = 1 and t = "''yes''"
      and st = REFERENCE_CHOICE and w = "prompted_world REFERENCE_CHOICE"]
    invalid_choice_reminder [where e = scenario_env and c = 1 and u = 1 and t = "''3''"
      and st = ITERATING_IMAGE and w = "prompted_world ITERATING_IMAGE"]
  by (simp add: prompted_world_def fresh_world_def)

text \<open>
  The claim as stated fails: the text sent for an invalid answer in \<open>REFERENCE_CHOICE\<close> is
  not the question that put the choice.
\<close>

theorem invalid_choice_counterexample:
  "trace (run scenario_env (scenario_updates @ [says 1 1 (Text ''maybe'')]) fresh_world) =
     scenario_trace @ [ReplyText reference_choice_again_text]
   \<and> last scenario_trace = ReplyText reference_question_text
   \<and> reference_choice_again_text \<noteq> reference_question_text"
proof -
  have "trace (run scenario_env (scenario_updates @ [says 1 1 (Text ''maybe'')]) fresh_world) =
     scenario_trace @ [ReplyText reference_choice_again_text]"
    unfolding run_append scenario_reference_choice
    by (simp add: process_update_def conversation_key_def says_def returns_def handle_reference_choice_def
        reply_text_def)
  moreover have "last scenario_trace = ReplyText reference_question_text"
    by (simp add: scenario_trace_def)
  moreover have "reference_choice_again_text \<noteq> reference_question_text"
    by (simp add: reference_choice_again_text_def reference_question_text_def)
  ultimately show ?thesis by simp
qed

text \<open>
  Claim C6. In every reachable world, the answer \<open>2\<close> of a user in \<open>ITERATING_IMAGE\<close>
  replaces the session by one that holds the original prompt it had and nothing else,
  asks for a new prompt and moves the conversation to \<open>INITIAL_PROMPT\<close>.
\<close>

theorem modify_prompt_resets:
  assumes "reachable w" "conversations w (c, u) = Some ITERATING_IMAGE"
  shows "\<exists>s p. user_data w u = Some s \<and> original_prompt s = Some p \<and>
     process_update e (says c u (Text ''2'')) w =
       w\<lparr>user_data := (user_data w)(u \<mapsto> \<lparr>original_prompt = Some p, enhanced_prompt = None,
            final_prompt = None, reference_image = None, generated_images = None\<rparr>),
         conversations := (conversations w)((c, u) \<mapsto> INITIAL_PROMPT),
         trace := trace w @ [ReplyText new_prompt_text]\<rparr>"
proof -
  from consistent_at [OF reachable_consistent [OF assms(1)] assms(2)]
  have "has_original (user_data w u)"
    by (simp add: state_backed_def)
  then obtain s p where s: "user_data w u = Some s" "original_prompt s = Some p"
    by (auto simp: has_original_def split: option.splits)
  with assms(2) have "process_update e (says c u (Text ''2'')) w =
       w\<lparr>user_data := (user_data w)(u \<mapsto> \<lparr>original_prompt = Some p, enhanced_prompt = None,
            final_prompt = None, reference_image = None, generated_images = None\<rparr>),
         conversations := (conversations w)((c, u) \<mapsto> INITIAL_PROMPT),
         trace := trace w @ [ReplyText new_prompt_text]\<rparr>"
    by (simp add: process_update_def conversation_key_def says_def handle_image_iteration_def session_of_def
        get_default_def put_session_def reply_text_def empty_session_def)
  with s show ?thesis by blast
qed

theorem modify_prompt_resets_witness:
  "user_data (process_update scenario_env (says 1 1 (Text ''2''))
      (run scenario_env (scenario_updates @ [says 1 1 (Text ''2'')]) fresh_world)) 1 =
     Some \<lparr>original_prompt = Some ''a pixel-art frog astronaut'', enhanced_prompt = None,
            final_prompt = None, reference_image = None, generated_images = None\<rparr>
   \<and> conversations (process_update scenario_env (says 1 1 (Text ''2''))
      (run scenario_env (scenario_updates @ [says 1 1 (Text ''2'')]) fresh_world)) (1, 1) =
     Some INITIAL_PROMPT"
proof -
  let ?w = "run scenario_env (scenario_updates @ [says 1 1 (Text ''2'')]) fresh_world"
  have r: "reachable ?w"
    by (rule reachable_run [OF reachable.fresh])
  have c: "conversations ?w (1, 1) = Some ITERATING_IMAGE"
    by (simp add: scenario_iterating)
  have u: "user_data ?w 1 = Some scenario_session"
    by (simp add: scenario_iterating)
  from modify_prompt_resets [OF r c, of scenario_env] u show ?thesis
    by (auto simp: scenario_session_def chosen_session_def)
qed

text \<open>
  Claim C8, as amended. When the refinement succeeds, the user answers \<open>1\<close> and then
  \<open>2\<close>, and the first status response reports the job complete with an image, the bot
  announces the generation, submits the enhanced prompt, polls once and sends the image
  as a photo whose caption asks to try again or to modify the prompt. Nothing is sent
  after the photo, and the conversation is in \<open>ITERATING_IMAGE\<close>.
\<close>

theorem scratch_scenario_photo:
  assumes "net e 0 = Inr r" "status_code r = 200" "json r = Inr b"
    "promptGeneration b = Some (Some enh)"
    "net e 1 = Inr s" "status_code s = 200" "json s = Inr bs" "sdGenerationJob bs = Some (Some g)"
    "net e 2 = Inr rc" "reports_complete_with_image rc" "first_image_url rc = Some url"
  shows "run e [says c u (Command ''start''), says c u (Text t), says c u (Text ''1''),
                says c u (Text ''2'')] fresh_world =
    \<lparr>user_data = [u \<mapsto> chosen_session t enh], original_text = Map.empty,
      conversations = [(c, u) \<mapsto> ITERATING_IMAGE], requests_made = 3,
      trace = [ReplyText welcome_message, Http (POST_prompt_improve t),
               ReplyText (enhanced_text t enh), ReplyText reference_question_text,
               ReplyText generating_text, Http (POST_generations (scratch_payload enh)),
               Http (GET_generations g), ReplyPhoto url generated_caption]\<rparr>"
  by (rule run_to_iterating [OF assms])

theorem scratch_scenario_photo_witness:
  "conversations (run scenario_env [says 1 1 (Command ''start''),
       says 1 1 (Text ''a pixel-art frog astronaut''), says 1 1 (Text ''1''), says 1 1 (Text ''2'')]
       fresh_world) (1, 1) = Some ITERATING_IMAGE
   \<and> trace (run scenario_env [says 1 1 (Command ''start''),
       says 1 1 (Text ''a pixel-art frog astronaut''), says 1 1 (Text ''1''), says 1 1 (Text ''2'')]
       fresh_world) =
     [ReplyText welcome_message, Http (POST_prompt_improve ''a pixel-art frog astronaut''),
      ReplyText (enhanced_text ''a pixel-art frog astronaut''
          ''a pixel-art frog astronaut, 8-bit palette''),
      ReplyText reference_question_text, ReplyText generating_text,
      Http (POST_generations (scratch_payload ''a pixel-art frog astronaut, 8-bit palette'')),
      Http (GET_generations ''job-1''), ReplyPhoto ''http://img/1.png'' generated_caption]"
  using scratch_scenario_photo [where e = scenario_env and c = 1 and u = 1
      and t = "''a pixel-art frog astronaut''"
      and r = "mock_improved ''a pixel-art frog astronaut, 8-bit palette''"
      and b = "empty_body\<lparr>promptGeneration :=
                 Some (Some ''a pixel-art frog astronaut, 8-bit palette'')\<rparr>"
      and enh = "''a pixel-art frog astronaut, 8-bit palette''"
      and s = mock_submitted
      and bs = "empty_body\<lparr>sdGenerationJob := Some (Some ''job-1'')\<rparr>" and g = "''job-1''"
      and rc = "mock_status ''COMPLETE'' [''http://img/1.png'']" and url = "''http://img/1.png''"]
  by (simp add: scenario_env_def mock_env_def scripted_def mock_improved_def
      mock_submitted_def mock_status_def reports_complete_with_image_def first_image_url_def
      empty_body_def)

text \<open>
  The claim as stated fails: in the scenario the photo is the last thing sent, and the
  three-choice text is sent nowhere.
\<close>

theorem scratch_scenario_counterexample:
  "last (trace (run scenario_env (scenario_updates @ [says 1 1 (Text ''2'')]) fresh_world)) =
     ReplyPhoto ''http://img/1.png'' generated_caption
   \<and> ReplyText follow_up_text
       \<notin> set (trace (run scenario_env (scenario_updates @ [says 1 1 (Text ''2'')]) fresh_world))
   \<and> conversations (run scenario_env (scenario_updates @ [says 1 1 (Text ''2'')]) fresh_world) (1, 1) =
     Some ITERATING_IMAGE"
proof -
  have "follow_up_text \<noteq> welcome_message"
    by (simp add: follow_up_text_def welcome_message_def emoji_wave_def)
  moreover have "follow_up_text \<noteq> enhanced_text x y" for x y
    by (simp add: follow_up_text_def enhanced_text_def)
  moreover have "follow_up_text \<noteq> reference_question_text"
    by (simp add: follow_up_text_def reference_question_text_def)
  moreover have "follow_up_text \<noteq> generating_text"
    by (simp add: follow_up_text_def generating_text_def emoji_palette_def)
  ultimately show ?thesis
    by (simp add: scenario_iterating scenario_trace_def)
qed

lemma handle_image_generation_try_raises:
  "\<exists>x. handle_image_generation_try e u w = (Inl x, w)"
  by (auto simp: handle_image_generation_try_def handle_image_generation_call_def Let_def
      subscript_def split: option.splits)

text \<open>
  Claim C10, as amended. The two functions are not interchangeable.
  \<open>start_image_generation\<close> always returns \<open>ITERATING_IMAGE\<close> and never changes
  \<open>user_data\<close>, and when its generation call gives no image it ends with the error text.
  \<open>handle_image_generation\<close>, whenever its \<open>try\<close> block raises, leaves \<open>user_data\<close> as it
  was too, but returns \<open>GENERATING_IMAGE\<close> and ends with an error text of another spacing.
\<close>

theorem generation_handlers_differ:
  "fst (start_image_generation e u w) = ITERATING_IMAGE
   \<and> user_data (snd (start_image_generation e u w)) = user_data w
   \<and> ((\<forall>url. fst (start_image_generation_call e u w) \<noteq> Inr (Success url)) \<longrightarrow>
        last (trace (snd (start_image_generation e u w))) = ReplyText generation_error_text)
   \<and> ((\<exists>x. fst (handle_image_generation_try e u w) = Inl x) \<longrightarrow>
        fst (handle_image_generation e u w) = GENERATING_IMAGE
        \<and> user_data (snd (handle_image_generation e u w)) = user_data w
        \<and> last (trace (snd (handle_image_generation e u w))) = ReplyText generation_error_text_spaced)
   \<and> generation_error_text \<noteq> generation_error_text_spaced"
proof (intro conjI impI)
  show "fst (start_image_generation e u w) = ITERATING_IMAGE"
    by (rule start_image_generation_state)
  show "user_data (snd (start_image_generation e u w)) = user_data w"
    using start_image_generation_store [of w e u] by (simp add: store_kept_def)
  show "last (trace (snd (start_image_generation e u w))) = ReplyText generation_error_text"
    if "\<forall>url. fst (start_image_generation_call e u w) \<noteq> Inr (Success url)"
    using that
    by (auto simp: start_image_generation_def reply_text_def
        split: prod.splits sum.splits gen_result.splits)
  show "generation_error_text \<noteq> generation_error_text_spaced"
    by (simp add: generation_error_text_def generation_error_text_spaced_def)
next
  assume "\<exists>x. fst (handle_image_generation_try e u w) = Inl x"
  from handle_image_generation_try_raises [of e u w]
  obtain x where x: "handle_image_generation_try e u w = (Inl x, w)" by blast
  show "fst (handle_image_generation e u w) = GENERATING_IMAGE"
    by (simp add: handle_image_generation_def x)
  show "user_data (snd (handle_image_generation e u w)) = user_data w"
    by (simp add: handle_image_generation_def x reply_text_def)
  show "last (trace (snd (handle_image_generation e u w))) = ReplyText generation_error_text_spaced"
    by (simp add: handle_image_generation_def x reply_text_def)
qed

lemma failing_generation:
  "generate_image failing_env p (prompted_world st) =
     (Error (''Generation failed with status '' @ str_int 500),
      (prompted_world st)\<lparr>requests_made := 1,
         trace := [ReplyText generating_text, Http (POST_generations (scratch_payload p))]\<rparr>)"
  by (simp add: generate_image_def generate_image_try_def http_def reply_text_def failing_env_def
      mock_env_def scripted_def mock_plain_def prompted_world_def fresh_world_def)

lemma failing_start:
  "start_image_generation failing_env 1 (prompted_world st) =
     (ITERATING_IMAGE,
      (prompted_world st)\<lparr>requests_made := 1,
         trace := [ReplyText generating_text,
           Http (POST_generations (scratch_payload ''a pixel-art frog astronaut, 8-bit palette'')),
           ReplyText generation_error_text]\<rparr>)"
proof -
  have "start_image_generation_call failing_env 1 (prompted_world st) =
    (Inr (Error (''Generation failed with status '' @ str_int 500)),
      (prompted_world st)\<lparr>requests_made := 1,
         trace := [ReplyText generating_text,
           Http (POST_generations (scratch_payload ''a pixel-art frog astronaut, 8-bit palette''))]\<rparr>)"
    using failing_generation [of "''a pixel-art frog astronaut, 8-bit palette''" st]
    by (simp add: start_image_generation_call_def get_default_def subscript_def
        prompted_world_def scenario_session_def chosen_session_def)
  then show ?thesis
    by (simp add: start_image_generation_def reply_text_def)
qed

lemma failing_handle:
  "handle_image_generation failing_env 1 (prompted_world st) =
     (GENERATING_IMAGE,
      (prompted_world st)\<lparr>trace := [ReplyText generation_error_text_spaced]\<rparr>)"
  by (simp add: handle_image_generation_def handle_image_generation_try_def
      handle_image_generation_call_def get_default_def subscript_def reply_text_def
      prompted_world_def scenario_session_def chosen_session_def fresh_world_def)

theorem generation_handlers_differ_witness:
  "fst (start_image_generation failing_env 1 (prompted_world GENERATING_IMAGE)) = ITERATING_IMAGE
   \<and> last (trace (snd (start_image_generation failing_env 1 (prompted_world GENERATING_IMAGE))))
       = ReplyText generation_error_text
   \<and> fst (handle_image_generation failing_env 1 (prompted_world GENERATING_IMAGE)) = GENERATING_IMAGE
   \<and> user_data (snd (handle_image_generation failing_env 1 (prompted_world GENERATING_IMAGE)))
       = user_data (prompted_world GENERATING_IMAGE)
   \<and> last (trace (snd (handle_image_generation failing_env 1 (prompted_world GENERATING_IMAGE))))
       = ReplyText generation_error_text_spaced"
proof -
  have a: "\<forall>url. fst (start_image_generation_call failing_env 1 (prompted_world GENERATING_IMAGE))
      \<noteq> Inr (Success url)"
    using failing_generation [of "''a pixel-art frog astronaut, 8-bit palette''" GENERATING_IMAGE]
    by (simp add: start_image_generation_call_def get_default_def subscript_def
        prompted_world_def scenario_session_def chosen_session_def)
  have b: "\<exists>x. fst (handle_image_generation_try failing_env 1 (prompted_world GENERATING_IMAGE)) = Inl x"
    using handle_image_generation_try_raises [of failing_env 1 "prompted_world GENERATING_IMAGE"]
    by auto
  from generation_handlers_differ [of failing_env 1 "prompted_world GENERATING_IMAGE"] a b
  show ?thesis by blast
qed

text \<open>
  The claim as stated fails: on a session with a final prompt and a service that refuses
  the submission, the two functions return different states and send different texts.
\<close>

theorem generation_handlers_counterexample:
  "fst (start_image_generation failing_env 1 (prompted_world GENERATING_IMAGE)) = ITERATING_IMAGE
   \<and> fst (handle_image_generation failing_env 1 (prompted_world GENERATING_IMAGE)) = GENERATING_IMAGE
   \<and> trace (snd (start_image_generation failing_env 1 (prompted_world GENERATING_IMAGE))) =
       [ReplyText generating_text,
        Http (POST_generations (scratch_payload ''a pixel-art frog astronaut, 8-bit palette'')),
        ReplyText generation_error_text]
   \<and> trace (snd (handle_image_generation failing_env 1 (prompted_world GENERATING_IMAGE))) =
       [ReplyText generation_error_text_spaced]
   \<and> fst (start_image_generation failing_env 1 (prompted_world GENERATING_IMAGE))
       \<noteq> fst (handle_image_generation failing_env 1 (prompted_world GENERATING_IMAGE))"
  by (simp add: failing_start failing_handle)

end
